theory Spec2Isabelle
  imports Complex_Main "HOL-Library.Monad_Syntax" "HOL-Library.Sublist"
begin

section \<open>JavaScript values\<close>

text \<open>
  The server is JavaScript: what it reads from parsed JSON (the search API's answer, the
  optimisation model's reply) is untyped. Such data is a \<open>jsval\<close>. \<open>Native f\<close> is the
  built-in function object named \<open>f\<close> that a property read finds on a prototype.
  Numbers are integers (the handlers only test them for truthiness and print them).

  A string is a list of chars, one char per UTF-16 code unit below 256. The three emoji of
  the source's literals lie above that range and are written as the bytes of their UTF-8
  encoding.

  A JavaScript exception raised by the runtime itself (a \<open>TypeError\<close>) is the value
  \<open>None\<close> of an option type; an error thrown by a library call carries its message.
\<close>

datatype jsval =
    Undefined | Null | Bool bool | Num int | Str string
  | Arr "jsval list" | Obj "(string \<times> jsval) list" | Native string

datatype js_error = JsError (error_message: string)

fun truthy :: "jsval \<Rightarrow> bool" where
  "truthy Undefined = False"
| "truthy Null = False"
| "truthy (Bool b) = b"
| "truthy (Num n) = (n \<noteq> 0)"
| "truthy (Str s) = (s \<noteq> [])"
| "truthy (Arr xs) = True"
| "truthy (Obj kvs) = True"
| "truthy (Native f) = True"

text \<open>\<open>a || b\<close>\<close>

definition js_or :: "jsval \<Rightarrow> jsval \<Rightarrow> jsval" where
  "js_or a b = (if truthy a then a else b)"

text \<open>
  What every object inherits from \<open>Object.prototype\<close>: eleven functions and the
  accessor \<open>__proto__\<close>, whose value is \<open>Object.prototype\<close> itself, an object with no
  enumerable property.
\<close>

definition object_prototype :: "(string \<times> jsval) list" where
  "object_prototype =
    [(''constructor'', Native ''Object''),
     (''__defineGetter__'', Native ''__defineGetter__''),
     (''__defineSetter__'', Native ''__defineSetter__''),
     (''hasOwnProperty'', Native ''hasOwnProperty''),
     (''__lookupGetter__'', Native ''__lookupGetter__''),
     (''__lookupSetter__'', Native ''__lookupSetter__''),
     (''isPrototypeOf'', Native ''isPrototypeOf''),
     (''propertyIsEnumerable'', Native ''propertyIsEnumerable''),
     (''toString'', Native ''toString''),
     (''valueOf'', Native ''valueOf''),
     (''__proto__'', Obj []),
     (''toLocaleString'', Native ''toLocaleString'')]"

definition inherited :: "string \<Rightarrow> jsval" where
  "inherited k = (case map_of object_prototype k of Some v \<Rightarrow> v | None \<Rightarrow> Undefined)"

text \<open>
  The property read \<open>v.k\<close> or \<open>v[k]\<close>. On \<open>undefined\<close> and \<open>null\<close> it throws. On an
  object it finds the own property first and then the inherited one. On a string, number,
  boolean or array the result is given for the names this program reads there
  (\<open>snippet\<close>, \<open>title\<close>, \<open>text\<close>, \<open>link\<close>, \<open>source\<close>, \<open>source_url\<close>, \<open>source_icon\<close>,
  \<open>favicon\<close>, \<open>organic_results\<close>, \<open>text_blocks\<close>, \<open>references\<close>, \<open>error\<close>,
  \<open>optimized_prompt\<close>, \<open>issues\<close>): of these only \<open>link\<close> exists, on
  \<open>String.prototype\<close>.
\<close>

fun js_get :: "jsval \<Rightarrow> string \<Rightarrow> jsval option" where
  "js_get Undefined k = None"
| "js_get Null k = None"
| "js_get (Obj kvs) k = Some (case map_of kvs k of Some v \<Rightarrow> v | None \<Rightarrow> inherited k)"
| "js_get (Str s) k = Some (if k = ''link'' then Native ''link'' else Undefined)"
| "js_get (Bool b) k = Some Undefined"
| "js_get (Num n) k = Some Undefined"
| "js_get (Arr xs) k = Some Undefined"
| "js_get (Native f) k = Some Undefined"

text \<open>
  \<open>a === b\<close> for two values taken from different places of one parsed JSON document:
  primitives are compared by value, two arrays or objects are never the same reference.
\<close>

fun js_strict_eq :: "jsval \<Rightarrow> jsval \<Rightarrow> bool" where
  "js_strict_eq (Arr xs) b = False"
| "js_strict_eq (Obj kvs) b = False"
| "js_strict_eq a b = (a = b)"

subsection \<open>Conversion to string\<close>

definition digit :: "nat \<Rightarrow> char" where
  "digit d =
    (if d = 0 then CHR ''0'' else if d = 1 then CHR ''1'' else if d = 2 then CHR ''2''
     else if d = 3 then CHR ''3'' else if d = 4 then CHR ''4'' else if d = 5 then CHR ''5''
     else if d = 6 then CHR ''6'' else if d = 7 then CHR ''7'' else if d = 8 then CHR ''8''
     else CHR ''9'')"

fun show_nat :: "nat \<Rightarrow> string" where
  "show_nat n = (if n < 10 then [digit n] else show_nat (n div 10) @ [digit (n mod 10)])"

declare show_nat.simps [simp del]

text \<open>
  \<open>String(v)\<close>, as a template literal and \<open>Array.prototype.join\<close> apply it. An object
  prints as \<open>[object Object]\<close> through the inherited \<open>toString\<close>; an own property
  \<open>toString\<close> read from JSON is never callable and hides it, and the conversion then
  throws. \<open>join\<close> prints \<open>undefined\<close> and \<open>null\<close> as the empty string.
\<close>

fun js_to_string :: "jsval \<Rightarrow> string option"
  and js_join :: "string \<Rightarrow> jsval list \<Rightarrow> string option" where
  "js_to_string Undefined = Some ''undefined''"
| "js_to_string Null = Some ''null''"
| "js_to_string (Bool b) = Some (if b then ''true'' else ''false'')"
| "js_to_string (Num n) = Some (if n < 0 then CHR ''-'' # show_nat (nat (- n)) else show_nat (nat n))"
| "js_to_string (Str s) = Some s"
| "js_to_string (Arr xs) = js_join '','' xs"
| "js_to_string (Obj kvs) =
     (if ''toString'' \<in> fst ` set kvs then None else Some ''[object Object]'')"
| "js_to_string (Native f) = Some (''function '' @ f @ ''() { [native code] }'')"
| "js_join sep [] = Some []"
| "js_join sep [x] = (if x = Undefined \<or> x = Null then Some [] else js_to_string x)"
| "js_join sep (x # y # ys) =
     (case (if x = Undefined \<or> x = Null then Some [] else js_to_string x) of
        None \<Rightarrow> None
      | Some a \<Rightarrow>
          (case js_join sep (y # ys) of None \<Rightarrow> None | Some b \<Rightarrow> Some (a @ sep @ b)))"

text \<open>\<open>xs.map(f)\<close> for a callback that may throw: the first exception ends the loop.\<close>

definition js_map :: "('a \<Rightarrow> 'b option) \<Rightarrow> 'a list \<Rightarrow> 'b list option" where
  "js_map f xs = those (map f xs)"

subsection \<open>String operations of the smart-prompt parser\<close>

text \<open>\<open>s.replace(/pat/g, '')\<close> for a literal pattern: every match is removed, left to
  right.\<close>

function remove_all :: "string \<Rightarrow> string \<Rightarrow> string" where
  "remove_all pat [] = []"
| "remove_all pat (c # cs) =
     (if pat \<noteq> [] \<and> prefix pat (c # cs) then remove_all pat (drop (length pat) (c # cs))
      else c # remove_all pat cs)"
  by pat_completeness auto
termination
  by (relation "measure (\<lambda>(pat, s). length s)") auto

definition is_space :: "char \<Rightarrow> bool" where
  "is_space c = (c \<in> set [CHR 0x09, CHR 0x0A, CHR 0x0B, CHR 0x0C, CHR 0x0D, CHR 0x20, CHR 0xA0])"

definition trim :: "string \<Rightarrow> string" where
  "trim s = rev (dropWhile is_space (rev (dropWhile is_space s)))"

text \<open>
  \<open>s.match(/\{[\s\S]*\}/)\<close>: the match starts at the first \<open>{\<close> and, the star being
  greedy, ends at the last \<open>}\<close> after it; there is none when no \<open>}\<close> follows the first
  \<open>{\<close>.
\<close>

definition match_braces :: "string \<Rightarrow> string option" where
  "match_braces s =
    (case dropWhile (\<lambda>c. c \<noteq> CHR ''{'') s of
       [] \<Rightarrow> None
     | c # body \<Rightarrow>
         (case rev (dropWhile (\<lambda>c. c \<noteq> CHR ''}'') (rev body)) of
            [] \<Rightarrow> None
          | m \<Rightarrow> Some (CHR ''{'' # m)))"

section \<open>Token counting\<close>

text \<open>
  \<open>countTokens(text)\<close>. The tokenizer is the library's: \<open>encode text\<close> is \<open>None\<close> when
  \<open>encodingForModel\<close> or \<open>enc.encode\<close> throws.
\<close>

definition countTokens :: "(string \<Rightarrow> nat list option) \<Rightarrow> string \<Rightarrow> nat" where
  "countTokens encode text =
    (case encode text of
       Some tokens \<Rightarrow> length tokens
     | None \<Rightarrow> nat \<lceil>real (length text) / 4\<rceil>)"

section \<open>The services the server calls\<close>

text \<open>
  Everything outside the process is an input of the model: the environment variables, the
  inference endpoint, the search API, the tokenizer, \<open>JSON.parse\<close> and the clock. A call
  that throws yields \<open>Inl\<close> of the error.
\<close>

record chat_message =
  msg_role :: string
  msg_content :: string

record completion_request =
  req_model :: string
  req_messages :: "chat_message list"
  req_max_tokens :: nat
  req_temperature :: real
  req_stream :: bool

text \<open>A completion: \<open>choices[0]?.message?.content\<close> when there is one, and \<open>usage\<close>
  (\<open>Undefined\<close> when absent).\<close>

record completion =
  completion_content :: "string option"
  completion_usage :: jsval

text \<open>
  \<open>chat_completions_stream\<close> is a streamed call read to its end: the list holds, for each
  chunk, \<open>choices[0].delta.content\<close> when the chunk has one. \<open>smart_completion\<close> is the
  optimisation model as a function of the user prompt it is sent (its system instruction
  and settings are fixed). \<open>count_other\<close> is what \<open>countTokens\<close> gives for a value that
  is not a string (\<open>None\<close> when it throws).
\<close>

record runtime =
  HF_API_KEY :: bool
  HF_MODEL :: string
  SERP_API_KEY :: bool
  chat_completions_stream :: "completion_request \<Rightarrow> js_error + string option list"
  chat_completions_create :: "completion_request \<Rightarrow> js_error + completion"
  smart_completion :: "string \<Rightarrow> js_error + completion"
  serp_fetch :: "string \<Rightarrow> js_error + jsval"
  JSON_parse :: "string \<Rightarrow> jsval option"
  encode :: "string \<Rightarrow> nat list option"
  count_other :: "jsval \<Rightarrow> jsval option"
  Date_now :: nat

datatype 'a http = Ok 'a | BadRequest string | ServerError string

section \<open>POST /smart-prompt\<close>

text \<open>
  The \<open>prompt\<close> of the body is a string, \<open>None\<close> when the body has none. The fields of
  the response are JSON values: what the model's reply parses to decides their shape.
\<close>

record smart_body =
  sp_issues :: jsval
  sp_optimizedPrompt :: jsval
  sp_originalTokens :: jsval
  sp_optimizedTokens :: jsval

definition strip_fences :: "string \<Rightarrow> string" where
  "strip_fences rawContent = trim (remove_all ''```'' (remove_all ''```json'' rawContent))"

definition parse_fallback :: "string \<Rightarrow> jsval" where
  "parse_fallback prompt =
     Obj [(''issues'', Arr [Str ''Could not analyze prompt structure (JSON Parse Error)'']),
          (''optimized_prompt'', Str prompt)]"

text \<open>The three nested \<open>try\<close> blocks of the handler.\<close>

definition parse_smart_reply :: "(string \<Rightarrow> jsval option) \<Rightarrow> string \<Rightarrow> string \<Rightarrow> jsval" where
  "parse_smart_reply parse prompt rawContent =
    (case parse rawContent of
       Some result \<Rightarrow> result
     | None \<Rightarrow>
         (case parse (strip_fences rawContent) of
            Some result \<Rightarrow> result
          | None \<Rightarrow>
              (case match_braces rawContent of
                 Some m \<Rightarrow> (case parse m of Some result \<Rightarrow> result | None \<Rightarrow> parse_fallback prompt)
               | None \<Rightarrow> parse_fallback prompt)))"

definition raw_content :: "completion \<Rightarrow> string" where
  "raw_content c =
    (case completion_content c of Some s \<Rightarrow> if s = [] then ''{}'' else s | None \<Rightarrow> ''{}'')"

text \<open>\<open>countTokens\<close> on a value read from parsed JSON.\<close>

definition countTokens_value :: "runtime \<Rightarrow> jsval \<Rightarrow> jsval option" where
  "countTokens_value rt v =
    (case v of Str s \<Rightarrow> Some (Num (int (countTokens (encode rt) s))) | _ \<Rightarrow> count_other rt v)"

definition smart_body_of :: "runtime \<Rightarrow> string \<Rightarrow> jsval \<Rightarrow> smart_body option" where
  "smart_body_of rt prompt result = do {
     optimized \<leftarrow> js_get result ''optimized_prompt'';
     optimizedTokens \<leftarrow> countTokens_value rt (js_or optimized (Str prompt));
     issues \<leftarrow> js_get result ''issues'';
     Some \<lparr>sp_issues = js_or issues (Arr []),
           sp_optimizedPrompt = js_or optimized (Str prompt),
           sp_originalTokens = Num (int (countTokens (encode rt) prompt)),
           sp_optimizedTokens = optimizedTokens\<rparr> }"

definition smart_prompt :: "runtime \<Rightarrow> string option \<Rightarrow> smart_body http" where
  "smart_prompt rt prompt_field =
    (case prompt_field of
       None \<Rightarrow> BadRequest ''Prompt is required''
     | Some prompt \<Rightarrow>
         if prompt = [] then BadRequest ''Prompt is required''
         else
           (case smart_completion rt prompt of
              Inl e \<Rightarrow> ServerError ''Failed to analyze prompt''
            | Inr completion \<Rightarrow>
                (case smart_body_of rt prompt
                        (parse_smart_reply (JSON_parse rt) prompt (raw_content completion)) of
                   None \<Rightarrow> ServerError ''Failed to analyze prompt''
                 | Some body \<Rightarrow> Ok body)))"

section \<open>Web search\<close>

record source =
  src_title :: jsval
  src_link :: jsval
  src_favicon :: jsval

record search_result =
  sr_context :: string
  sr_sources :: "source list"

text \<open>\<open>b => b.snippet || b.title || b.text\<close>\<close>

definition block_text :: "jsval \<Rightarrow> jsval option" where
  "block_text b = do {
     snippet \<leftarrow> js_get b ''snippet'';
     title \<leftarrow> js_get b ''title'';
     text \<leftarrow> js_get b ''text'';
     Some (js_or (js_or snippet title) text) }"

text \<open>
  The chunks: those of \<open>text_blocks\<close> when it is an array, and the snippets of
  \<open>organic_results\<close> when that gave none. \<open>map\<close> on a value that is not an array
  throws.
\<close>

definition extract_chunks :: "jsval \<Rightarrow> jsval list option" where
  "extract_chunks data = do {
     text_blocks \<leftarrow> js_get data ''text_blocks'';
     chunks \<leftarrow> (case text_blocks of
                 Arr bs \<Rightarrow> map_option (filter truthy) (js_map block_text bs)
               | _ \<Rightarrow> Some []);
     organic_results \<leftarrow> js_get data ''organic_results'';
     if chunks = [] \<and> truthy organic_results then
       (case organic_results of
          Arr rs \<Rightarrow> map_option (filter truthy) (js_map (\<lambda>r. js_get r ''snippet'') rs)
        | _ \<Rightarrow> None)
     else Some chunks }"

definition organic_source :: "jsval \<Rightarrow> source option" where
  "organic_source r = do {
     title \<leftarrow> js_get r ''title'';
     link \<leftarrow> js_get r ''link'';
     favicon \<leftarrow> js_get r ''favicon'';
     Some \<lparr>src_title = title, src_link = link, src_favicon = favicon\<rparr> }"

definition reference_source :: "jsval \<Rightarrow> source option" where
  "reference_source r = do {
     title \<leftarrow> js_get r ''title'';
     source \<leftarrow> js_get r ''source'';
     link \<leftarrow> js_get r ''link'';
     source_icon \<leftarrow> js_get r ''source_icon'';
     Some \<lparr>src_title = js_or (js_or title source) (Str ''Source''), src_link = link,
           src_favicon = source_icon\<rparr> }"

definition block_source :: "jsval \<Rightarrow> source option" where
  "block_source b = do {
     title \<leftarrow> js_get b ''title'';
     source \<leftarrow> js_get b ''source'';
     link \<leftarrow> js_get b ''link'';
     source_url \<leftarrow> js_get b ''source_url'';
     Some \<lparr>src_title = js_or (js_or title source) (Str ''Source''),
           src_link = js_or link source_url, src_favicon = Null\<rparr> }"

text \<open>The \<open>forEach\<close> that merges the sources of the text blocks into \<open>sources\<close>.\<close>

fun merge_sources :: "source list \<Rightarrow> source list \<Rightarrow> source list" where
  "merge_sources sources [] = sources"
| "merge_sources sources (bs # rest) =
     merge_sources
       (if \<not> list_ex (\<lambda>s. js_strict_eq (src_link s) (src_link bs)) sources \<and> length sources < 5
        then sources @ [bs] else sources)
       rest"

text \<open>\<open>xs.slice(0, 5).map(f)\<close>: on anything but an array, \<open>slice\<close> or \<open>map\<close> is not a
  function.\<close>

definition first_five :: "(jsval \<Rightarrow> source option) \<Rightarrow> jsval \<Rightarrow> source list option" where
  "first_five f v = (case v of Arr rs \<Rightarrow> js_map f (take 5 rs) | _ \<Rightarrow> None)"

text \<open>The sources a strategy starts from: organic results, else references.\<close>

definition base_sources :: "jsval \<Rightarrow> source list option" where
  "base_sources data = do {
     organic_results \<leftarrow> js_get data ''organic_results'';
     sources \<leftarrow> (if truthy organic_results then first_five organic_source organic_results
                 else Some []);
     references \<leftarrow> js_get data ''references'';
     if sources = [] \<and> truthy references then first_five reference_source references
     else Some sources }"

definition block_sources :: "jsval \<Rightarrow> source list option" where
  "block_sources text_blocks =
    (case text_blocks of
       Arr bs \<Rightarrow> map_option (filter (\<lambda>s. truthy (src_link s))) (js_map block_source bs)
     | _ \<Rightarrow> None)"

definition extract_sources :: "jsval \<Rightarrow> source list option" where
  "extract_sources data = do {
     sources \<leftarrow> base_sources data;
     text_blocks \<leftarrow> js_get data ''text_blocks'';
     if length sources < 3 \<and> truthy text_blocks then do {
       blockSources \<leftarrow> block_sources text_blocks;
       Some (merge_sources sources blockSources) }
     else Some sources }"

text \<open>
  \<open>performWebSearch(query)\<close>: \<open>None\<close> is the \<open>null\<close> it returns without an API key, on
  an \<open>error\<close> field in the answer, and from its \<open>catch\<close>.
\<close>

definition performWebSearch :: "runtime \<Rightarrow> string \<Rightarrow> search_result option" where
  "performWebSearch rt query =
    (if \<not> SERP_API_KEY rt then None
     else
       (case serp_fetch rt query of
          Inl e \<Rightarrow> None
        | Inr data \<Rightarrow> do {
            error \<leftarrow> js_get data ''error'';
            if truthy error then None
            else do {
              chunks \<leftarrow> extract_chunks data;
              sources \<leftarrow> extract_sources data;
              context \<leftarrow> js_join [CHR 0x0A, CHR 0x0A] (take 15 chunks);
              Some \<lparr>sr_context = context, sr_sources = sources\<rparr> } }))"

section \<open>Depth instructions\<close>

definition depthInstructions :: "(string \<times> jsval) list" where
  "depthInstructions =
    [(''Concise'', Str
       (''IMPORTANT CONSTRAINT: Keep your response extremely concise, '' @
         ''approximately 100-150 words.'')),
     (''Short'', Str
       (''IMPORTANT CONSTRAINT: Keep your response short and to the point, '' @
         ''approximately 200-300 words.'')),
     (''Medium'', Str
       (''IMPORTANT CONSTRAINT: Provide a standard medium-length response, '' @
         ''approximately 400-600 words.'')),
     (''Large'', Str
       (''IMPORTANT CONSTRAINT: Provide a very detailed, comprehensive, '' @
         ''and in-depth response, approximately 800-1000 words.''))]"

text \<open>\<open>depthInstructions[depth] || depthInstructions['Short']\<close>\<close>

definition depth_instruction :: "string \<Rightarrow> jsval option" where
  "depth_instruction depth = do {
     chosen \<leftarrow> js_get (Obj depthInstructions) depth;
     short \<leftarrow> js_get (Obj depthInstructions) ''Short'';
     Some (js_or chosen short) }"

text \<open>The instruction as the template literal prints it.\<close>

definition depth_text :: "string \<Rightarrow> string option" where
  "depth_text depth = do { v \<leftarrow> depth_instruction depth; js_to_string v }"

section \<open>The web-search flow\<close>

record flow_result =
  fr_response :: string
  fr_usage :: jsval

definition no_web_results :: string where
  "no_web_results =
     ''No web results found. Please answer based on your general knowledge.''"

definition search_prompt :: "string \<Rightarrow> string \<Rightarrow> string \<Rightarrow> string" where
  "search_prompt query context depthInstruction =
     ([CHR 0x0A] @ ''    ### USER QUERY:'' @ [CHR 0x0A] @ ''    '') @ query @
     ([CHR 0x0A, CHR 0x0A] @ ''    ### WEB SEARCH CONTEXT:'' @ [CHR 0x0A] @ ''    '') @ context @
     ([CHR 0x0A, CHR 0x0A] @ ''    ### INSTRUCTIONS:'' @ [CHR 0x0A] @
     ''    1. Answer the user'' @ [CHR 0x27] @
     ''s query comprehensively using the provided context.'' @ [CHR 0x0A] @
     ''    2. Cite the information implicitly by synthesizing it.'' @ [CHR 0x0A] @
     ''    3. '')
     @ depthInstruction @
     ([CHR 0x0A] @ ''    4. Format nicely with Markdown.'' @ [CHR 0x0A] @ ''    '')"

definition kimi_request :: "string \<Rightarrow> completion_request" where
  "kimi_request prompt =
    \<lparr>req_model = ''moonshotai/Kimi-K2-Instruct-0905:groq'',
     req_messages =
       [\<lparr>msg_role = ''system'', msg_content =
           ''You are Kimi, an intelligent AI assistant capable of synthesizing '' @
           ''web search results.''\<rparr>,
        \<lparr>msg_role = ''user'', msg_content = prompt\<rparr>],
     req_max_tokens = 2048, req_temperature = 7 / 10, req_stream = False\<rparr>"

definition sources_header :: string where
  "sources_header = [CHR 0x0A, CHR 0x0A] @ ''---'' @ [CHR 0x0A] @ ''### '' @
     [CHR 0xF0, CHR 0x9F, CHR 0x8C, CHR 0x90] @ '' Sources'' @ [CHR 0x0A]"

text \<open>The \<open>forEach\<close> that appends one line per source; \<open>i\<close> is the index.\<close>

fun source_lines :: "nat \<Rightarrow> string \<Rightarrow> source list \<Rightarrow> string option" where
  "source_lines i response [] = Some response"
| "source_lines i response (s # rest) = do {
     title \<leftarrow> js_to_string (src_title s);
     link \<leftarrow> js_to_string (src_link s);
     source_lines (i + 1)
       (response @ show_nat (i + 1) @ ''. ['' @ title @ '']('' @ link @ '')'' @ [CHR 0x0A]) rest }"

definition append_sources :: "string \<Rightarrow> source list \<Rightarrow> string option" where
  "append_sources response sources =
    (if length sources > 0 then source_lines 0 (response @ sources_header) sources
     else Some response)"

definition zero_usage :: jsval where
  "zero_usage = Obj [(''input_tokens'', Num 0), (''output_tokens'', Num 0)]"

definition kimi_error :: flow_result where
  "kimi_error = \<lparr>fr_response = ''Error generating web search response.'', fr_usage = Obj []\<rparr>"

definition synthesis_text :: "completion \<Rightarrow> string" where
  "synthesis_text c =
    (case completion_content c of
       Some s \<Rightarrow> if s = [] then ''Failed to generate response.'' else s
     | None \<Rightarrow> ''Failed to generate response.'')"

text \<open>\<open>searchResult?.context || "No web results found. ..."\<close> and
  \<open>searchResult?.sources || []\<close>\<close>

definition flow_context :: "search_result option \<Rightarrow> string" where
  "flow_context searchResult =
    (case searchResult of
       Some r \<Rightarrow> if sr_context r = [] then no_web_results else sr_context r
     | None \<Rightarrow> no_web_results)"

definition flow_sources :: "search_result option \<Rightarrow> source list" where
  "flow_sources searchResult = (case searchResult of Some r \<Rightarrow> sr_sources r | None \<Rightarrow> [])"

text \<open>
  \<open>handleWebSearchFlow(query, depth = 'Short')\<close>; an omitted \<open>depth\<close> is \<open>None\<close>. The
  result is \<open>None\<close> when the function throws, which only the template literal of the
  prompt, outside the \<open>try\<close>, could do.
\<close>

definition handleWebSearchFlow :: "runtime \<Rightarrow> string \<Rightarrow> string option \<Rightarrow> flow_result option" where
  "handleWebSearchFlow rt query depth_arg =
    (let depth = (case depth_arg of None \<Rightarrow> ''Short'' | Some d \<Rightarrow> d);
         searchResult = performWebSearch rt query;
         context = flow_context searchResult;
         sources = flow_sources searchResult
     in do {
       depthInstruction \<leftarrow> depth_text depth;
       Some (case chat_completions_create rt
                    (kimi_request (search_prompt query context depthInstruction)) of
               Inl e \<Rightarrow> kimi_error
             | Inr completion \<Rightarrow>
                 (case append_sources (synthesis_text completion) sources of
                    None \<Rightarrow> kimi_error
                  | Some response \<Rightarrow>
                      \<lparr>fr_response = response,
                       fr_usage = js_or (completion_usage completion) zero_usage\<rparr>)) })"

section \<open>The standard flow\<close>

definition system_prompt :: "string \<Rightarrow> string" where
  "system_prompt depthInstruction =
     (''You are Sanyai, an advanced AI assistant designed to be helpful, '' @
     ''engaging, and visually structured.'' @ [CHR 0x0A, CHR 0x0A] @
     ''### GUIDELINES:'' @ [CHR 0x0A] @
     ''1. **FORMATTING**: Use **GitHub Flavored Markdown** exclusively. '' @
     ''Make your responses visually appealing.'' @ [CHR 0x0A] @
     ''2. **STRUCTURE**: Use **Markdown Tables** for data/comparisons. '' @
     ''Use **Bold** for key terms. Use **Headers** (#, ##) to separate '' @
     ''sections.'' @ [CHR 0x0A] @
     ''3. **NO HTML**: NEVER use HTML tags like <br>, <b>, <i>, <table>, '' @
     ''etc. Use standard Markdown syntax instead.'' @ [CHR 0x0A] @
     ''4. **ENGAGEMENT**: Use emojis '' @
     [CHR 0xF0, CHR 0x9F, CHR 0x9A, CHR 0x80, CHR 0xE2, CHR 0x9C, CHR 0xA8] @
     '' sparingly in headers to make them pop. Use `code blocks` for '' @
     ''technical terms.'' @ [CHR 0x0A] @
     ''5. **CLARITY**: Use bullet points and numbered lists for readability. '' @
     ''Use > Blockquotes for summaries or important notes.'' @ [CHR 0x0A] @
     ''6. **LENGTH CONSTRAINT**: '') @
     depthInstruction"

definition sanyai_request :: "runtime \<Rightarrow> string \<Rightarrow> chat_message list \<Rightarrow> completion_request" where
  "sanyai_request rt depthInstruction prompt =
    \<lparr>req_model = HF_MODEL rt,
     req_messages = \<lparr>msg_role = ''system'', msg_content = system_prompt depthInstruction\<rparr> # prompt,
     req_max_tokens = 2048, req_temperature = 7 / 10, req_stream = True\<rparr>"

definition model_error :: "string \<Rightarrow> string" where
  "model_error msg =
     ''Error calling AI Model: '' @ msg @ ''. Please check your API key and connection.''"

definition missing_key_reply :: string where
  "missing_key_reply =
     ''Error: Hugging Face Access Token is missing. Please check your .env file.''"

definition empty_reply :: string where
  "empty_reply =
     ''I apologize, but I received an empty response from the AI model. Please try again.''"

text \<open>
  \<open>generateResponse(prompt, depth = 'Short')\<close>. The whole body is one \<open>try\<close>: whatever
  is thrown becomes the reply. \<open>out\<close> is the concatenation of the chunks' contents.
\<close>

definition generateResponse :: "runtime \<Rightarrow> chat_message list \<Rightarrow> string option \<Rightarrow> string" where
  "generateResponse rt prompt depth_arg =
    (let depth = (case depth_arg of None \<Rightarrow> ''Short'' | Some d \<Rightarrow> d) in
     if \<not> HF_API_KEY rt then missing_key_reply
     else
       (case depth_text depth of
          None \<Rightarrow> model_error ''Cannot convert object to primitive value''
        | Some depthInstruction \<Rightarrow>
            (case chat_completions_stream rt (sanyai_request rt depthInstruction prompt) of
               Inl error \<Rightarrow> model_error (error_message error)
             | Inr chunks \<Rightarrow>
                 (let out = concat (map (\<lambda>c. case c of Some s \<Rightarrow> s | None \<Rightarrow> []) chunks)
                  in if out = [] then empty_reply else out))))"

subsection \<open>The LangGraph orchestrator\<close>

text \<open>A LangChain message; an \<open>AIMessage\<close> carries \<open>additional_kwargs.usage\<close>
  (\<open>Undefined\<close> when it has none).\<close>

datatype lc_message = HumanMessage string | AIMessage string jsval

fun lc_type :: "lc_message \<Rightarrow> string" where
  "lc_type (HumanMessage c) = ''human''"
| "lc_type (AIMessage c u) = ''ai''"

fun lc_content :: "lc_message \<Rightarrow> string" where
  "lc_content (HumanMessage c) = c"
| "lc_content (AIMessage c u) = c"

fun lc_usage :: "lc_message \<Rightarrow> jsval" where
  "lc_usage (HumanMessage c) = Undefined"
| "lc_usage (AIMessage c u) = u"

record graph_state =
  gs_messages :: "lc_message list"
  gs_depth :: string

text \<open>The history as \<open>generateResponse\<close> expects it.\<close>

definition formattedHistory :: "lc_message list \<Rightarrow> chat_message list" where
  "formattedHistory messages =
    map (\<lambda>msg. \<lparr>msg_role = (if lc_type msg = ''human'' then ''user'' else ''assistant''),
                msg_content = lc_content msg\<rparr>) messages"

text \<open>The node \<open>callModel\<close>: its result is the update of the \<open>messages\<close> channel.\<close>

definition callModel :: "runtime \<Rightarrow> graph_state \<Rightarrow> lc_message list" where
  "callModel rt state =
    (let depth = (if gs_depth state = [] then ''Medium'' else gs_depth state);
         history = formattedHistory (gs_messages state);
         responseContent = generateResponse rt history (Some depth);
         inputTokens =
           foldl (\<lambda>acc msg. acc + countTokens (encode rt) (msg_content msg)) 0 history;
         outputTokens = countTokens (encode rt) responseContent
     in [AIMessage responseContent
           (Obj [(''input_tokens'', Num (int inputTokens)),
                 (''output_tokens'', Num (int outputTokens))])])"

text \<open>The compiled graph \<open>START \<rightarrow> agent \<rightarrow> END\<close>: the \<open>messages\<close> channel
  concatenates.\<close>

definition appGraph_invoke :: "runtime \<Rightarrow> graph_state \<Rightarrow> graph_state" where
  "appGraph_invoke rt input = input\<lparr>gs_messages := gs_messages input @ callModel rt input\<rparr>"

record graph_reply =
  gr_content :: string
  gr_usage :: jsval

text \<open>The plain history as LangChain messages.\<close>

definition langchain_inputs :: "chat_message list \<Rightarrow> lc_message list" where
  "langchain_inputs history =
    map (\<lambda>msg. if msg_role msg = ''user'' then HumanMessage (msg_content msg)
               else AIMessage (msg_content msg) Undefined) history"

text \<open>\<open>runLangGraph(history, depth = 'Medium')\<close>\<close>

definition runLangGraph :: "runtime \<Rightarrow> chat_message list \<Rightarrow> string option \<Rightarrow> graph_reply" where
  "runLangGraph rt history depth_arg =
    (let depth = (case depth_arg of None \<Rightarrow> ''Medium'' | Some d \<Rightarrow> d);
         inputs = langchain_inputs history;
         result = appGraph_invoke rt \<lparr>gs_messages = inputs, gs_depth = depth\<rparr>;
         lastMessage = last (gs_messages result)
     in \<lparr>gr_content = lc_content lastMessage,
         gr_usage = js_or (lc_usage lastMessage) zero_usage\<rparr>)"

section \<open>The database\<close>

text \<open>
  The two tables of \<open>schema.sql\<close>. A chat is its \<open>id\<close>; a message row is
  \<open>chat_id\<close>, \<open>role\<close> and \<open>content\<close>. Both lists are in the order of \<open>created_at\<close>, so a
  new row goes to the end. The generated \<open>id\<close> and \<open>created_at\<close> of a message are not
  recorded.

  The Supabase client returns an error instead of throwing. Whether a call fails for a
  reason outside the tables (the network, a malformed identifier) is an input: the
  \<open>fault\<close> of the call. An insert into \<open>messages\<close> also fails when \<open>chat_id\<close> references
  no chat, and an insert into \<open>chats\<close> when the generated id exists.
\<close>

record message_row =
  row_chat_id :: string
  row_role :: string
  row_content :: string

record database =
  chats :: "string list"
  messages :: "message_row list"

definition insert_chat :: "bool \<Rightarrow> string \<Rightarrow> database \<Rightarrow> (string option \<times> database)" where
  "insert_chat fault new_id db =
    (if fault \<or> new_id \<in> set (chats db) then (None, db)
     else (Some new_id, db\<lparr>chats := chats db @ [new_id]\<rparr>))"

definition insert_message :: "bool \<Rightarrow> message_row \<Rightarrow> database \<Rightarrow> database" where
  "insert_message fault row db =
    (if fault \<or> row_chat_id row \<notin> set (chats db) then db
     else db\<lparr>messages := messages db @ [row]\<rparr>)"

definition select_messages :: "bool \<Rightarrow> string \<Rightarrow> database \<Rightarrow> message_row list option" where
  "select_messages fault chat_id db =
    (if fault then None else Some (filter (\<lambda>m. row_chat_id m = chat_id) (messages db)))"

definition select_chats :: "bool \<Rightarrow> database \<Rightarrow> string list option" where
  "select_chats fault db = (if fault then None else Some (take 20 (rev (chats db))))"

text \<open>What the environment decides for the database calls of one \<open>POST /chat\<close>.\<close>

record db_calls =
  create_fault :: bool
  generated_id :: string
  user_insert_fault :: bool
  history_fault :: bool
  assistant_insert_fault :: bool

section \<open>POST /chat\<close>

text \<open>
  The body, at the types the interface documents: \<open>chat_id\<close>, \<open>message\<close> and \<open>depth\<close>
  are strings and \<open>webSearch\<close> is a boolean; \<open>None\<close> is a field the body does not have
  (an absent \<open>webSearch\<close> is \<open>False\<close>).
\<close>

record chat_request =
  body_chat_id :: "string option"
  body_message :: "string option"
  body_depth :: "string option"
  body_webSearch :: bool

record chat_response =
  res_chat_id :: string
  res_response :: string
  res_usage :: jsval

text \<open>\<open>!v\<close> for an optional string field of the body.\<close>

definition absent :: "string option \<Rightarrow> bool" where
  "absent v = (case v of None \<Rightarrow> True | Some s \<Rightarrow> s = [])"

text \<open>The string of a field that is not absent.\<close>

definition field_text :: "string option \<Rightarrow> string" where
  "field_text v = (case v of None \<Rightarrow> [] | Some s \<Rightarrow> s)"

text \<open>\<open>if (!depth) depth = 'Short'\<close>\<close>

definition request_depth :: "chat_request \<Rightarrow> string" where
  "request_depth req = (if absent (body_depth req) then ''Short'' else field_text (body_depth req))"

definition local_id :: "runtime \<Rightarrow> string" where
  "local_id rt = ''local-'' @ show_nat (Date_now rt)"

text \<open>Step 1, the chat session: the id of the request, or a new one.\<close>

definition chat_session ::
  "runtime \<Rightarrow> db_calls \<Rightarrow> database option \<Rightarrow> string option \<Rightarrow> string \<times> database option" where
  "chat_session rt calls supabase chat_id =
    (if absent chat_id then
       (case supabase of
          Some db \<Rightarrow>
            (case insert_chat (create_fault calls) (generated_id calls) db of
               (None, db') \<Rightarrow> (local_id rt, Some db')
             | (Some created, db') \<Rightarrow> (created, Some db'))
        | None \<Rightarrow> (local_id rt, None))
     else (field_text chat_id, supabase))"

text \<open>Steps 2 and 5, the two inserts.\<close>

definition store_message ::
  "bool \<Rightarrow> database option \<Rightarrow> string \<Rightarrow> string \<Rightarrow> string \<Rightarrow> database option" where
  "store_message fault supabase chat_id role content =
    map_option
      (insert_message fault \<lparr>row_chat_id = chat_id, row_role = role, row_content = content\<rparr>)
      supabase"

text \<open>Step 3, the conversation context.\<close>

definition load_conversation ::
  "db_calls \<Rightarrow> database option \<Rightarrow> string \<Rightarrow> string \<Rightarrow> chat_message list" where
  "load_conversation calls supabase chat_id message =
    (case supabase of
       Some db \<Rightarrow>
         (case select_messages (history_fault calls) chat_id db of
            Some history \<Rightarrow>
              map (\<lambda>m. \<lparr>msg_role = row_role m, msg_content = row_content m\<rparr>) history
          | None \<Rightarrow> [\<lparr>msg_role = ''user'', msg_content = message\<rparr>])
     | None \<Rightarrow> [\<lparr>msg_role = ''user'', msg_content = message\<rparr>])"

text \<open>Step 4, the reply: \<open>None\<close> when the flow throws.\<close>

definition chat_reply ::
  "runtime \<Rightarrow> bool \<Rightarrow> string \<Rightarrow> string \<Rightarrow> chat_message list \<Rightarrow> (string \<times> jsval) option" where
  "chat_reply rt webSearch message depth conversation =
    (if webSearch then
       map_option (\<lambda>result. (fr_response result, fr_usage result))
         (handleWebSearchFlow rt message (Some depth))
     else
       (let result = runLangGraph rt conversation (Some depth)
        in Some (gr_content result, gr_usage result)))"

text \<open>Steps 1 to 3 together: the chat id, the database once the user's message is
  stored, and the conversation.\<close>

definition chat_context ::
  "runtime \<Rightarrow> db_calls \<Rightarrow> database option \<Rightarrow> chat_request \<Rightarrow>
     string \<times> database option \<times> chat_message list" where
  "chat_context rt calls supabase req =
    (let message = field_text (body_message req);
         (chat_id, supabase1) = chat_session rt calls supabase (body_chat_id req);
         supabase2 = store_message (user_insert_fault calls) supabase1 chat_id ''user'' message
     in (chat_id, supabase2, load_conversation calls supabase2 chat_id message))"

text \<open>
  The handler: the response, and the database after it. An exception leaves the rows
  written before it.
\<close>

definition chat ::
  "runtime \<Rightarrow> db_calls \<Rightarrow> database option \<Rightarrow> chat_request \<Rightarrow>
     chat_response http \<times> database option" where
  "chat rt calls supabase req =
    (if absent (body_message req) then (BadRequest ''Message is required'', supabase)
     else
       (let message = field_text (body_message req);
            depth = request_depth req;
            (chat_id, supabase2, conversation) = chat_context rt calls supabase req
        in case chat_reply rt (body_webSearch req) message depth conversation of
             None \<Rightarrow> (ServerError ''Internal Server Error'', supabase2)
           | Some (assistantResponse, usage) \<Rightarrow>
               (Ok \<lparr>res_chat_id = chat_id, res_response = assistantResponse, res_usage = usage\<rparr>,
                store_message (assistant_insert_fault calls) supabase2 chat_id ''assistant''
                  assistantResponse)))"

section \<open>GET /chat/:id and GET /chats\<close>

text \<open>Both handlers answer with status 200 on every path; the model gives the list they
  send as \<open>messages\<close> and as \<open>chats\<close>.\<close>

definition get_chat :: "bool \<Rightarrow> database option \<Rightarrow> string \<Rightarrow> message_row list" where
  "get_chat fault supabase chat_id =
    (case supabase of
       None \<Rightarrow> []
     | Some db \<Rightarrow> (case select_messages fault chat_id db of None \<Rightarrow> [] | Some data \<Rightarrow> data))"

definition get_chats :: "bool \<Rightarrow> database option \<Rightarrow> string list" where
  "get_chats fault supabase =
    (case supabase of
       None \<Rightarrow> []
     | Some db \<Rightarrow> (case select_chats fault db of None \<Rightarrow> [] | Some data \<Rightarrow> data))"

section \<open>The sources section, as the specification words it\<close>

text \<open>
  The specification's "sources section listing each source as a numbered markdown link":
  the header, then for the source at position \<open>i\<close> (from 0) the line
  \<open>i+1. [title](link)\<close>. \<open>printed\<close> is the text of a value that converts to a string.
\<close>

definition printed :: "jsval \<Rightarrow> string" where
  "printed v = (case js_to_string v of Some s \<Rightarrow> s | None \<Rightarrow> [])"

definition numbered_link :: "nat \<Rightarrow> source \<Rightarrow> string" where
  "numbered_link n s =
     show_nat n @ ''. ['' @ printed (src_title s) @ '']('' @ printed (src_link s) @ '')'' @ [CHR 0x0A]"

definition sources_section_spec :: "source list \<Rightarrow> string" where
  "sources_section_spec srcs =
     sources_header @ concat (map (\<lambda>(i, s). numbered_link (Suc i) s) (enumerate 0 srcs))"

section \<open>An example environment\<close>

text \<open>
  A concrete environment on which the theorems below are instantiated: a parser that
  accepts only \<open>{}\<close>, a tokenizer with one token per character, an optimisation model
  that answers with text around a brace pair that does not parse, and a search answer with
  three text blocks and one reference.
\<close>

definition demo_parse :: "string \<Rightarrow> jsval option" where
  "demo_parse s = (if s = ''{}'' then Some (Obj []) else None)"

definition demo_data :: jsval where
  "demo_data = Obj
     [(''text_blocks'', Arr
        [Obj [(''snippet'', Str ''Kansas City won.''), (''link'', Str ''https://a.example/1'')],
         Obj [(''title'', Str ''Recap''), (''link'', Str ''https://a.example/1'')],
         Obj [(''text'', Str ''Final score 25-22.''), (''source_url'', Str ''https://b.example/2'')]]),
      (''references'', Arr
        [Obj [(''title'', Str ''NFL''), (''link'', Str ''https://nfl.example''),
              (''source_icon'', Str ''https://nfl.example/i.png'')]])]"

definition demo_reply :: completion where
  "demo_reply = \<lparr>completion_content = Some ''Here: {not json} done'', completion_usage = Undefined\<rparr>"

definition demo_runtime :: runtime where
  "demo_runtime =
    \<lparr>HF_API_KEY = True, HF_MODEL = ''openai/gpt-oss-120b:groq'', SERP_API_KEY = True,
     chat_completions_stream = (\<lambda>r. Inr [Some ''Hello'', None, Some '' there'']),
     chat_completions_create =
       (\<lambda>r. Inr \<lparr>completion_content = Some ''Answer.'', completion_usage = Undefined\<rparr>),
     smart_completion = (\<lambda>p. Inr demo_reply),
     serp_fetch = (\<lambda>q. Inr demo_data),
     JSON_parse = demo_parse,
     encode = (\<lambda>s. Some (map of_char s)),
     count_other = (\<lambda>v. None),
     Date_now = 1700\<rparr>"

definition demo_result :: search_result where
  "demo_result =
    \<lparr>sr_context = ''Kansas City won.'' @ [CHR 0x0A, CHR 0x0A] @ ''Recap'' @ [CHR 0x0A, CHR 0x0A] @
        ''Final score 25-22.'',
     sr_sources =
       [\<lparr>src_title = Str ''NFL'', src_link = Str ''https://nfl.example'',
         src_favicon = Str ''https://nfl.example/i.png''\<rparr>,
        \<lparr>src_title = Str ''Source'', src_link = Str ''https://a.example/1'', src_favicon = Null\<rparr>,
        \<lparr>src_title = Str ''Source'', src_link = Str ''https://b.example/2'', src_favicon = Null\<rparr>]\<rparr>"

definition demo_db :: database where
  "demo_db =
    \<lparr>chats = [''c1''],
     messages = [\<lparr>row_chat_id = ''c1'', row_role = ''user'', row_content = ''Hi''\<rparr>,
                 \<lparr>row_chat_id = ''c1'', row_role = ''assistant'', row_content = ''Hello''\<rparr>]\<rparr>"

definition demo_calls :: db_calls where
  "demo_calls =
    \<lparr>create_fault = False, generated_id = ''c2'', user_insert_fault = False,
     history_fault = False, assistant_insert_fault = False\<rparr>"

definition demo_request :: chat_request where
  "demo_request =
    \<lparr>body_chat_id = Some ''c1'', body_message = Some ''Who won?'', body_depth = None,
     body_webSearch = False\<rparr>"

definition web_request :: chat_request where
  "web_request =
    \<lparr>body_chat_id = None, body_message = Some ''who won'', body_depth = Some ''Concise'',
     body_webSearch = True\<rparr>"

definition failing_runtime :: runtime where
  "failing_runtime =
    demo_runtime
      \<lparr>chat_completions_stream := (\<lambda>r. Inl (JsError ''401 Unauthorized'')),
       chat_completions_create := (\<lambda>r. Inl (JsError ''401 Unauthorized''))\<rparr>"

text \<open>An inference endpoint that answers with the system prompt it was sent, and a request
  whose depth is the name of an inherited property.\<close>

definition echo_runtime :: runtime where
  "echo_runtime =
    demo_runtime
      \<lparr>chat_completions_stream := (\<lambda>r. Inr [Some (msg_content (hd (req_messages r)))])\<rparr>"

definition constructor_request :: chat_request where
  "constructor_request =
    \<lparr>body_chat_id = None, body_message = Some ''hi'', body_depth = Some ''constructor'',
     body_webSearch = False\<rparr>"

text \<open>An inference endpoint that answers \<open>yes\<close> exactly when the request it is sent asks
  for at most \<open>n\<close> tokens, with no search key configured, and the request of a new chat with
  a given depth and web-search switch.\<close>

definition ceiling_probe :: "nat \<Rightarrow> runtime" where
  "ceiling_probe n =
    demo_runtime
      \<lparr>SERP_API_KEY := False,
       chat_completions_stream :=
         (\<lambda>r. Inr [Some (if req_max_tokens r = n then ''yes'' else ''no'')]),
       chat_completions_create :=
         (\<lambda>r. Inr \<lparr>completion_content = Some (if req_max_tokens r = n then ''yes'' else ''no''),
                    completion_usage = Undefined\<rparr>)\<rparr>"

definition depth_request :: "string \<Rightarrow> bool \<Rightarrow> chat_request" where
  "depth_request depth webSearch =
    \<lparr>body_chat_id = None, body_message = Some ''hi'', body_depth = Some depth,
     body_webSearch = webSearch\<rparr>"

section \<open>Token counting is total\<close>

lemma countTokens_fallback:
  "enc text = None \<Longrightarrow> countTokens enc text = (length text + 3) div 4"
  unfolding countTokens_def by (simp add: ceiling_divide_eq_div) linarith

text \<open>
  Claim C8. For every string, \<open>countTokens\<close> returns the length of the tokenizer's
  encoding; when the tokenizer throws it returns the ceiling of a quarter of the length of
  the text, which is the integer \<open>(length + 3) div 4\<close>. The result is a natural number in
  both cases: the function is total on strings.
\<close>

theorem C8_countTokens:
  "(\<forall>tokens. enc text = Some tokens \<longrightarrow> countTokens enc text = length tokens) \<and>
   (enc text = None \<longrightarrow>
      countTokens enc text = nat \<lceil>real (length text) / 4\<rceil> \<and>
      countTokens enc text = (length text + 3) div 4)"
  using countTokens_fallback[of enc "text"] by (simp add: countTokens_def)

theorem C8_countTokens_witness:
  "countTokens (\<lambda>s. Some [15339, 1917]) ''hello world'' = 2 \<and>
   countTokens (\<lambda>s. None) ''hello world'' = 3"
  using C8_countTokens[of "\<lambda>s. Some [15339, 1917]" "''hello world''"]
        C8_countTokens[of "\<lambda>s. None" "''hello world''"]
  by simp

section \<open>The smart-prompt fallback\<close>

lemma parse_smart_reply_fallback:
  assumes "parse raw = None" and "parse (strip_fences raw) = None"
    and "\<forall>m. match_braces raw = Some m \<longrightarrow> parse m = None"
  shows "parse_smart_reply parse prompt raw = parse_fallback prompt"
  using assms unfolding parse_smart_reply_def by (simp split: option.splits)

text \<open>
  Claim C1. A request with a non-empty prompt, for which the optimisation model answered
  and none of the three attempts (the raw content, the content without code fences, the
  text from the first \<open>{\<close> to the last \<open>}\<close>) parses as JSON, is answered with status 200
  and \<open>optimizedPrompt\<close> is the prompt itself.
\<close>

theorem C1_unparsable_reply_returns_prompt:
  assumes "prompt \<noteq> []"
    and "smart_completion rt prompt = Inr completion"
    and "JSON_parse rt (raw_content completion) = None"
    and "JSON_parse rt (strip_fences (raw_content completion)) = None"
    and "\<forall>m. match_braces (raw_content completion) = Some m \<longrightarrow> JSON_parse rt m = None"
  shows "\<exists>body. smart_prompt rt (Some prompt) = Ok body \<and> sp_optimizedPrompt body = Str prompt"
proof -
  have "parse_smart_reply (JSON_parse rt) prompt (raw_content completion) = parse_fallback prompt"
    using assms(3-5) by (rule parse_smart_reply_fallback)
  moreover have "\<exists>body. smart_body_of rt prompt (parse_fallback prompt) = Some body \<and>
      sp_optimizedPrompt body = Str prompt"
    using assms(1) by (simp add: smart_body_of_def parse_fallback_def countTokens_value_def js_or_def)
  ultimately show ?thesis
    using assms(1,2) by (auto simp: smart_prompt_def)
qed

lemma demo_reply_match: "match_braces (raw_content demo_reply) = Some ''{not json}''"
  by (simp add: match_braces_def raw_content_def demo_reply_def)

theorem C1_unparsable_reply_returns_prompt_witness:
  "\<exists>body. smart_prompt demo_runtime (Some ''Please could you sum two numbers'') = Ok body \<and>
     sp_optimizedPrompt body = Str ''Please could you sum two numbers''"
proof (rule C1_unparsable_reply_returns_prompt [where completion = demo_reply])
  show "''Please could you sum two numbers'' \<noteq> []" by simp
  show "smart_completion demo_runtime ''Please could you sum two numbers'' = Inr demo_reply"
    by (simp add: demo_runtime_def)
  show "JSON_parse demo_runtime (raw_content demo_reply) = None"
    by (simp add: demo_runtime_def raw_content_def demo_parse_def demo_reply_def)
  show "JSON_parse demo_runtime (strip_fences (raw_content demo_reply)) = None"
    by (simp add: demo_runtime_def raw_content_def demo_parse_def demo_reply_def
        strip_fences_def trim_def is_space_def)
  show "\<forall>m. match_braces (raw_content demo_reply) = Some m \<longrightarrow> JSON_parse demo_runtime m = None"
    by (simp add: demo_reply_match demo_runtime_def demo_parse_def)
qed

section \<open>The result of a web search\<close>

lemma those_length: "those xs = Some ys \<Longrightarrow> length ys = length xs"
  by (induction xs arbitrary: ys) (auto split: option.splits)

lemma js_map_length: "js_map f xs = Some ys \<Longrightarrow> length ys = length xs"
  unfolding js_map_def by (drule those_length) simp

lemma first_five_length: "first_five f v = Some ss \<Longrightarrow> length ss \<le> 5"
  unfolding first_five_def by (cases v) (auto dest: js_map_length)

lemma base_sources_length: "base_sources data = Some ss \<Longrightarrow> length ss \<le> 5"
  unfolding base_sources_def
  by (auto simp: bind_eq_Some_conv split: if_splits dest: first_five_length)

lemma merge_sources_length: "length ss \<le> 5 \<Longrightarrow> length (merge_sources ss bs) \<le> 5"
  by (induction bs arbitrary: ss) auto

lemma merge_sources_appends:
  "\<exists>added. merge_sources ss bs = ss @ added \<and>
     (\<forall>j<length added. \<forall>t\<in>set (ss @ take j added).
        \<not> js_strict_eq (src_link t) (src_link (added ! j)))"
proof (induction bs arbitrary: ss)
  case Nil
  show ?case by simp
next
  case (Cons b bs)
  show ?case
  proof (cases "\<not> list_ex (\<lambda>s. js_strict_eq (src_link s) (src_link b)) ss \<and> length ss < 5")
    case True
    from Cons.IH[of "ss @ [b]"] obtain added where
      a: "merge_sources (ss @ [b]) bs = (ss @ [b]) @ added"
      and f: "\<forall>j<length added. \<forall>t\<in>set ((ss @ [b]) @ take j added).
        \<not> js_strict_eq (src_link t) (src_link (added ! j))"
      by blast
    have "\<forall>j<length (b # added). \<forall>t\<in>set (ss @ take j (b # added)).
        \<not> js_strict_eq (src_link t) (src_link ((b # added) ! j))"
    proof (intro allI impI ballI)
      fix j t
      assume j: "j < length (b # added)" and t: "t \<in> set (ss @ take j (b # added))"
      show "\<not> js_strict_eq (src_link t) (src_link ((b # added) ! j))"
      proof (cases j)
        case 0
        with t True show ?thesis by (auto simp: list_ex_iff)
      next
        case (Suc k)
        with j t f show ?thesis by auto
      qed
    qed
    with a True show ?thesis
      by (intro exI[of _ "b # added"]) simp
  next
    case False
    with Cons.IH[of ss] show ?thesis by auto
  qed
qed

lemma extract_sources_shape:
  assumes "extract_sources data = Some ss"
  shows "length ss \<le> 5 \<and>
    (\<exists>base added. base_sources data = Some base \<and> ss = base @ added \<and>
       (\<forall>j<length added. \<forall>t\<in>set (base @ take j added).
          \<not> js_strict_eq (src_link t) (src_link (added ! j))))"
proof -
  from assms obtain base tb where b: "base_sources data = Some base"
    and r: "(if length base < 3 \<and> truthy tb
             then Option.bind (block_sources tb) (\<lambda>bs. Some (merge_sources base bs))
             else Some base) = Some ss"
    unfolding extract_sources_def by (auto simp: bind_eq_Some_conv)
  have len: "length base \<le> 5" using b by (rule base_sources_length)
  show ?thesis
  proof (cases "length base < 3 \<and> truthy tb")
    case True
    with r obtain bs where ss: "ss = merge_sources base bs"
      by (auto simp: bind_eq_Some_conv)
    from merge_sources_appends[of base bs] obtain added where
      "merge_sources base bs = base @ added"
      "\<forall>j<length added. \<forall>t\<in>set (base @ take j added).
          \<not> js_strict_eq (src_link t) (src_link (added ! j))"
      by blast
    with ss b merge_sources_length[OF len, of bs] show ?thesis by auto
  next
    case False
    with r have "ss = base" by (simp split: if_splits)
    with b len show ?thesis by auto
  qed
qed

lemma strict_eq_Str: "js_strict_eq a (Str l) = (a = Str l)"
  by (cases a) auto

text \<open>
  Claim C10. Whatever the search API answers, a result of \<open>performWebSearch\<close> that is
  not \<open>null\<close> has as context the join of the first chunks extracted from the answer, at
  most 15 of them, and at most 5 sources. The sources are those of the organic results or
  references followed by the ones merged from the text blocks, and the link of a merged
  source is not strictly equal to the link of any source before it; when it is a string,
  no earlier source has that string as its link.
\<close>

theorem C10_search_result_bounds:
  assumes "performWebSearch rt query = Some r"
  shows "\<exists>data chunks base added.
     serp_fetch rt query = Inr data \<and>
     extract_chunks data = Some chunks \<and>
     js_join [CHR 0x0A, CHR 0x0A] (take 15 chunks) = Some (sr_context r) \<and>
     length (take 15 chunks) \<le> 15 \<and>
     length (sr_sources r) \<le> 5 \<and>
     base_sources data = Some base \<and>
     sr_sources r = base @ added \<and>
     (\<forall>j<length added. \<forall>t\<in>set (base @ take j added).
        \<not> js_strict_eq (src_link t) (src_link (added ! j)) \<and>
        (\<forall>l. src_link (added ! j) = Str l \<longrightarrow> src_link t \<noteq> Str l))"
proof -
  from assms obtain data where d: "serp_fetch rt query = Inr data"
    unfolding performWebSearch_def by (auto split: if_splits sum.splits)
  with assms obtain chunks ss where c: "extract_chunks data = Some chunks"
    and s: "extract_sources data = Some ss"
    and j: "js_join [CHR 0x0A, CHR 0x0A] (take 15 chunks) = Some (sr_context r)"
    and rs: "sr_sources r = ss"
    unfolding performWebSearch_def
    by (auto simp: bind_eq_Some_conv split: if_splits)
  from extract_sources_shape[OF s] obtain base added where
    "length ss \<le> 5" "base_sources data = Some base" "ss = base @ added"
    and f: "\<forall>j<length added. \<forall>t\<in>set (base @ take j added).
          \<not> js_strict_eq (src_link t) (src_link (added ! j))"
    by blast
  moreover from f have "\<forall>j<length added. \<forall>t\<in>set (base @ take j added).
      \<forall>l. src_link (added ! j) = Str l \<longrightarrow> src_link t \<noteq> Str l"
    by (metis strict_eq_Str)
  ultimately show ?thesis using d c j rs by (intro exI[of _ data] exI[of _ chunks] exI[of _ base] exI[of _ added]) simp
qed

lemma demo_search: "performWebSearch demo_runtime q = Some demo_result"
  by (simp add: performWebSearch_def demo_runtime_def demo_data_def demo_result_def
      extract_chunks_def extract_sources_def base_sources_def block_sources_def first_five_def
      js_map_def block_text_def reference_source_def block_source_def organic_source_def
      js_or_def inherited_def object_prototype_def)

theorem C10_search_result_bounds_witness:
  "\<exists>data chunks base added.
     serp_fetch demo_runtime ''who won'' = Inr data \<and>
     extract_chunks data = Some chunks \<and>
     js_join [CHR 0x0A, CHR 0x0A] (take 15 chunks) = Some (sr_context demo_result) \<and>
     length (take 15 chunks) \<le> 15 \<and>
     length (sr_sources demo_result) \<le> 5 \<and>
     base_sources data = Some base \<and>
     sr_sources demo_result = base @ added \<and>
     (\<forall>j<length added. \<forall>t\<in>set (base @ take j added).
        \<not> js_strict_eq (src_link t) (src_link (added ! j)) \<and>
        (\<forall>l. src_link (added ! j) = Str l \<longrightarrow> src_link t \<noteq> Str l))"
  by (rule C10_search_result_bounds [OF demo_search])

section \<open>The depth lookup never throws\<close>

lemma depth_own: "map_of depthInstructions d = Some v \<Longrightarrow> \<exists>s. v = Str s \<and> s \<noteq> []"
  unfolding depthInstructions_def by (auto split: if_splits)

lemma inherited_cases: "inherited k = Undefined \<or> inherited k = Obj [] \<or> (\<exists>f. inherited k = Native f)"
  unfolding inherited_def object_prototype_def by (auto split: if_splits)

lemma depth_instruction_cases:
  "\<exists>v. depth_instruction d = Some v \<and> ((\<exists>s. v = Str s) \<or> v = Obj [] \<or> (\<exists>f. v = Native f))"
proof -
  obtain short where s: "map_of depthInstructions ''Short'' = Some (Str short)" "short \<noteq> []"
    unfolding depthInstructions_def by simp
  show ?thesis
  proof (cases "map_of depthInstructions d")
    case None
    with s inherited_cases[of d] show ?thesis
      by (auto simp: depth_instruction_def js_or_def)
  next
    case (Some v)
    with depth_own[OF Some] s show ?thesis
      by (auto simp: depth_instruction_def js_or_def)
  qed
qed

lemma depth_text_total: "\<exists>s. depth_text d = Some s"
  using depth_instruction_cases[of d] unfolding depth_text_def by auto

lemma depth_text_labels:
  "depth_text ''Concise'' = Some
     (''IMPORTANT CONSTRAINT: Keep your response extremely concise, '' @
      ''approximately 100-150 words.'')"
  "depth_text ''Short'' = Some
     (''IMPORTANT CONSTRAINT: Keep your response short and to the point, '' @
      ''approximately 200-300 words.'')"
  "depth_text ''Medium'' = Some
     (''IMPORTANT CONSTRAINT: Provide a standard medium-length response, '' @
      ''approximately 400-600 words.'')"
  "depth_text ''Large'' = Some
     (''IMPORTANT CONSTRAINT: Provide a very detailed, comprehensive, '' @
      ''and in-depth response, approximately 800-1000 words.'')"
  by (simp_all add: depth_text_def depth_instruction_def depthInstructions_def js_or_def)

lemma depth_text_constructor:
  "depth_text ''constructor'' = Some ''function Object() { [native code] }''"
  by (simp add: depth_text_def depth_instruction_def depthInstructions_def js_or_def
      inherited_def object_prototype_def)

lemma handleWebSearchFlow_returns: "\<exists>result. handleWebSearchFlow rt query depth = Some result"
proof -
  obtain s where "depth_text (case depth of None \<Rightarrow> ''Short'' | Some d \<Rightarrow> d) = Some s"
    using depth_text_total by blast
  then show ?thesis
    unfolding handleWebSearchFlow_def by (simp add: Let_def)
qed

lemma chat_reply_returns: "\<exists>response usage. chat_reply rt ws message depth conv = Some (response, usage)"
  using handleWebSearchFlow_returns[of rt message "Some depth"]
  unfolding chat_reply_def by (auto simp: Let_def)

section \<open>POST /chat always answers\<close>

lemma chat_present:
  assumes "\<not> absent (body_message req)"
  shows "\<exists>response usage.
     chat_reply rt (body_webSearch req) (field_text (body_message req))
       (request_depth req)
       (load_conversation calls
          (store_message (user_insert_fault calls)
             (snd (chat_session rt calls supabase (body_chat_id req)))
             (fst (chat_session rt calls supabase (body_chat_id req))) ''user''
             (field_text (body_message req)))
          (fst (chat_session rt calls supabase (body_chat_id req)))
          (field_text (body_message req))) = Some (response, usage) \<and>
     chat rt calls supabase req =
       (Ok \<lparr>res_chat_id = fst (chat_session rt calls supabase (body_chat_id req)),
            res_response = response, res_usage = usage\<rparr>,
        store_message (assistant_insert_fault calls)
          (store_message (user_insert_fault calls)
             (snd (chat_session rt calls supabase (body_chat_id req)))
             (fst (chat_session rt calls supabase (body_chat_id req))) ''user''
             (field_text (body_message req)))
          (fst (chat_session rt calls supabase (body_chat_id req))) ''assistant'' response)"
proof -
  obtain response usage where
    "chat_reply rt (body_webSearch req) (field_text (body_message req))
       (request_depth req)
       (load_conversation calls
          (store_message (user_insert_fault calls)
             (snd (chat_session rt calls supabase (body_chat_id req)))
             (fst (chat_session rt calls supabase (body_chat_id req))) ''user''
             (field_text (body_message req)))
          (fst (chat_session rt calls supabase (body_chat_id req)))
          (field_text (body_message req))) = Some (response, usage)"
    using chat_reply_returns by blast
  with assms show ?thesis
    unfolding chat_def chat_context_def by (simp add: Let_def split_beta)
qed

lemma chat_session_new:
  assumes "absent chat_id"
  shows "chat_session rt calls supabase chat_id =
    (case supabase of
       None \<Rightarrow> (local_id rt, None)
     | Some db \<Rightarrow>
         if create_fault calls \<or> generated_id calls \<in> set (chats db) then (local_id rt, Some db)
         else (generated_id calls, Some (db\<lparr>chats := chats db @ [generated_id calls]\<rparr>)))"
  using assms unfolding chat_session_def insert_chat_def by (simp split: option.splits)

lemma chat_session_given:
  "chat_id \<noteq> [] \<Longrightarrow> chat_session rt calls supabase (Some chat_id) = (chat_id, supabase)"
  unfolding chat_session_def absent_def field_text_def by simp

lemma store_message_existing:
  "cid \<in> set (chats db) \<Longrightarrow>
   store_message fault (Some db) cid role content =
     Some (db\<lparr>messages := messages db @
        (if fault then [] else [\<lparr>row_chat_id = cid, row_role = role, row_content = content\<rparr>])\<rparr>)"
  unfolding store_message_def insert_message_def by simp

lemma store_message_prefix:
  "\<exists>after. store_message fault (Some db) cid role content = Some after \<and>
     chats after = chats db \<and> prefix (messages db) (messages after)"
  unfolding store_message_def insert_message_def by simp

lemma chat_session_prefix:
  "\<exists>after. snd (chat_session rt calls (Some db) chat_id) = Some after \<and>
     prefix (chats db) (chats after) \<and> messages after = messages db"
  unfolding chat_session_def insert_chat_def by (simp split: option.splits)

text \<open>
  Claim C3. A request with a message and no \<open>chat_id\<close> is answered with status 200 and
  a newly allocated identifier in \<open>chat_id\<close>: the id of the chat the database created
  (a row added to \<open>chats\<close>), or \<open>local-\<close> followed by the clock's value when there is
  no database client or the insert failed.
\<close>

theorem C3_new_chat_id:
  assumes "\<not> absent (body_message req)" and "absent (body_chat_id req)"
  shows "\<exists>resp after. chat rt calls supabase req = (Ok resp, after) \<and>
     (case supabase of
        None \<Rightarrow> res_chat_id resp = ''local-'' @ show_nat (Date_now rt)
      | Some db \<Rightarrow>
          if create_fault calls \<or> generated_id calls \<in> set (chats db)
          then res_chat_id resp = ''local-'' @ show_nat (Date_now rt)
          else res_chat_id resp = generated_id calls \<and>
               (\<exists>db'. after = Some db' \<and> chats db' = chats db @ [generated_id calls]))"
proof -
  from chat_present[OF assms(1), of rt calls supabase] obtain response usage where
    c: "chat rt calls supabase req =
       (Ok \<lparr>res_chat_id = fst (chat_session rt calls supabase (body_chat_id req)),
            res_response = response, res_usage = usage\<rparr>,
        store_message (assistant_insert_fault calls)
          (store_message (user_insert_fault calls)
             (snd (chat_session rt calls supabase (body_chat_id req)))
             (fst (chat_session rt calls supabase (body_chat_id req))) ''user''
             (field_text (body_message req)))
          (fst (chat_session rt calls supabase (body_chat_id req))) ''assistant'' response)"
    by blast
  show ?thesis
  proof (cases supabase)
    case None
    with c assms(2) show ?thesis
      by (simp add: chat_session_new local_id_def)
  next
    case (Some db)
    show ?thesis
    proof (cases "create_fault calls \<or> generated_id calls \<in> set (chats db)")
      case True
      with c assms(2) Some show ?thesis
        by (simp add: chat_session_new local_id_def)
    next
      case False
      let ?db1 = "db\<lparr>chats := chats db @ [generated_id calls]\<rparr>"
      have s: "chat_session rt calls supabase (body_chat_id req) = (generated_id calls, Some ?db1)"
        using False Some assms(2) by (simp add: chat_session_new)
      obtain db2 where d2: "store_message (user_insert_fault calls) (Some ?db1)
          (generated_id calls) ''user'' (field_text (body_message req)) = Some db2"
        and c2: "chats db2 = chats ?db1"
        using store_message_prefix by blast
      obtain db3 where d3: "store_message (assistant_insert_fault calls) (Some db2)
          (generated_id calls) ''assistant'' response = Some db3"
        and c3: "chats db3 = chats db2"
        using store_message_prefix by blast
      from c s d2 d3 c2 c3 False Some show ?thesis by simp
    qed
  qed
qed

theorem C3_new_chat_id_witness:
  "\<exists>resp after. chat demo_runtime demo_calls (Some demo_db) web_request = (Ok resp, after) \<and>
     res_chat_id resp = ''c2'' \<and> (\<exists>db'. after = Some db' \<and> chats db' = [''c1'', ''c2''])"
  using C3_new_chat_id[of web_request demo_runtime demo_calls "Some demo_db"]
  by (simp add: web_request_def demo_calls_def demo_db_def absent_def)

text \<open>
  Claim C4. Whatever the request, \<open>POST /chat\<close> leaves every stored chat and message in
  place and only adds rows after them. For a request with a message and the id of an
  existing chat, the rows added are the user's message and then the assistant's response
  (each unless its insert failed), and nothing else changes.
\<close>

theorem C4_history_append_only:
  "(\<exists>after. snd (chat rt calls (Some db) req) = Some after \<and>
      prefix (chats db) (chats after) \<and> prefix (messages db) (messages after)) \<and>
   (body_chat_id req = Some cid \<and> cid \<noteq> [] \<and> cid \<in> set (chats db) \<and>
    \<not> absent (body_message req) \<longrightarrow>
      (\<exists>resp after. chat rt calls (Some db) req = (Ok resp, Some after) \<and>
         res_chat_id resp = cid \<and> chats after = chats db \<and>
         messages after = messages db @
           (if user_insert_fault calls then []
            else [\<lparr>row_chat_id = cid, row_role = ''user'',
                   row_content = field_text (body_message req)\<rparr>]) @
           (if assistant_insert_fault calls then []
            else [\<lparr>row_chat_id = cid, row_role = ''assistant'',
                   row_content = res_response resp\<rparr>])))"
proof (intro conjI impI)
  show "\<exists>after. snd (chat rt calls (Some db) req) = Some after \<and>
      prefix (chats db) (chats after) \<and> prefix (messages db) (messages after)"
  proof (cases "absent (body_message req)")
    case True
    then show ?thesis by (simp add: chat_def)
  next
    case False
    let ?cid = "fst (chat_session rt calls (Some db) (body_chat_id req))"
    from chat_present[OF False, of rt calls "Some db"] obtain response where
      c: "snd (chat rt calls (Some db) req) =
        store_message (assistant_insert_fault calls)
          (store_message (user_insert_fault calls)
             (snd (chat_session rt calls (Some db) (body_chat_id req)))
             ?cid ''user'' (field_text (body_message req)))
          ?cid ''assistant'' response"
      by auto
    obtain db1 where d1: "snd (chat_session rt calls (Some db) (body_chat_id req)) = Some db1"
      and p1: "prefix (chats db) (chats db1)" "messages db1 = messages db"
      using chat_session_prefix by blast
    obtain db2 where d2: "store_message (user_insert_fault calls) (Some db1) ?cid ''user''
        (field_text (body_message req)) = Some db2"
      and p2: "chats db2 = chats db1" "prefix (messages db1) (messages db2)"
      using store_message_prefix by blast
    obtain db3 where d3: "store_message (assistant_insert_fault calls) (Some db2) ?cid
        ''assistant'' response = Some db3"
      and p3: "chats db3 = chats db2" "prefix (messages db2) (messages db3)"
      using store_message_prefix by blast
    have "prefix (messages db) (messages db3)"
      using p1(2) p2(2) p3(2) by (metis prefix_order.order_trans)
    with c d1 d2 d3 p1 p2 p3 show ?thesis by simp
  qed
next
  assume a: "body_chat_id req = Some cid \<and> cid \<noteq> [] \<and> cid \<in> set (chats db) \<and>
    \<not> absent (body_message req)"
  then have s: "chat_session rt calls (Some db) (body_chat_id req) = (cid, Some db)"
    by (simp add: chat_session_given)
  from a chat_present[of req rt calls "Some db"] obtain response usage where
    c: "chat rt calls (Some db) req =
       (Ok \<lparr>res_chat_id = cid, res_response = response, res_usage = usage\<rparr>,
        store_message (assistant_insert_fault calls)
          (store_message (user_insert_fault calls) (Some db) cid ''user''
             (field_text (body_message req)))
          cid ''assistant'' response)"
    unfolding s by auto
  from a show "\<exists>resp after. chat rt calls (Some db) req = (Ok resp, Some after) \<and>
         res_chat_id resp = cid \<and> chats after = chats db \<and>
         messages after = messages db @
           (if user_insert_fault calls then []
            else [\<lparr>row_chat_id = cid, row_role = ''user'',
                   row_content = field_text (body_message req)\<rparr>]) @
           (if assistant_insert_fault calls then []
            else [\<lparr>row_chat_id = cid, row_role = ''assistant'',
                   row_content = res_response resp\<rparr>])"
    unfolding c by (simp add: store_message_existing)
qed

theorem C4_history_append_only_witness:
  "\<exists>resp after. chat demo_runtime demo_calls (Some demo_db) demo_request = (Ok resp, Some after) \<and>
     res_chat_id resp = ''c1'' \<and> chats after = [''c1''] \<and>
     messages after = messages demo_db @
       [\<lparr>row_chat_id = ''c1'', row_role = ''user'', row_content = ''Who won?''\<rparr>,
        \<lparr>row_chat_id = ''c1'', row_role = ''assistant'', row_content = res_response resp\<rparr>]"
  using C4_history_append_only[of demo_runtime demo_calls demo_db demo_request "''c1''"]
  by (simp add: demo_request_def demo_calls_def demo_db_def absent_def field_text_def)

section \<open>Failures of the model and of the database\<close>

lemma handleWebSearchFlow_error:
  assumes "depth_text depth = Some depthInstruction"
    and "chat_completions_create rt
           (kimi_request (search_prompt query (flow_context (performWebSearch rt query))
              depthInstruction)) = Inl error"
  shows "handleWebSearchFlow rt query (Some depth) = Some kimi_error"
  using assms unfolding handleWebSearchFlow_def by (simp add: Let_def)

lemma generateResponse_error:
  assumes "HF_API_KEY rt" and "depth_text depth = Some depthInstruction"
    and "chat_completions_stream rt (sanyai_request rt depthInstruction prompt) = Inl error"
  shows "generateResponse rt prompt (Some depth) = model_error (error_message error)"
  using assms unfolding generateResponse_def by (simp add: Let_def)

lemma request_depth_nonempty: "request_depth req \<noteq> []"
  unfolding request_depth_def absent_def field_text_def by (simp split: option.splits)

lemma runLangGraph_generates:
  "gr_content (runLangGraph rt history (Some depth)) =
     generateResponse rt (formattedHistory (langchain_inputs history))
       (Some (if depth = [] then ''Medium'' else depth))"
  unfolding runLangGraph_def appGraph_invoke_def callModel_def by (simp add: Let_def)

lemma chat_standard_reply:
  "chat_reply rt False message (request_depth req) conversation =
     Some (generateResponse rt (formattedHistory (langchain_inputs conversation))
             (Some (request_depth req)),
           gr_usage (runLangGraph rt conversation (Some (request_depth req))))"
  unfolding chat_reply_def
  by (simp add: Let_def runLangGraph_generates request_depth_nonempty)

lemma chat_answer:
  assumes "\<not> absent (body_message req)"
  shows "\<exists>cid after response usage.
     chat_reply rt (body_webSearch req) (field_text (body_message req)) (request_depth req)
       (snd (snd (chat_context rt calls supabase req))) = Some (response, usage) \<and>
     chat rt calls supabase req =
       (Ok \<lparr>res_chat_id = cid, res_response = response, res_usage = usage\<rparr>, after)"
proof -
  obtain response usage where
    "chat_reply rt (body_webSearch req) (field_text (body_message req)) (request_depth req)
       (snd (snd (chat_context rt calls supabase req))) = Some (response, usage)"
    using chat_reply_returns by blast
  with assms show ?thesis
    unfolding chat_def by (simp add: Let_def split_beta)
qed

text \<open>
  Claim C6. For a request with a message, whose depth selects the instruction
  \<open>depthInstruction\<close>: when the synthesis call of the web-search flow throws, and when
  the streamed call of the standard flow throws (an API key being set), the handler still
  answers with status 200, and \<open>response\<close> is the error text the flow made of the
  exception. The calls are the ones the flows make: on the prompt built from the query
  and the search context, and on the conversation of the chat.
\<close>

theorem C6_model_errors_become_replies:
  assumes "\<not> absent (body_message req)"
    and "depth_text (request_depth req) = Some depthInstruction"
  shows "(body_webSearch req \<and>
          chat_completions_create rt
            (kimi_request (search_prompt (field_text (body_message req))
               (flow_context (performWebSearch rt (field_text (body_message req))))
               depthInstruction)) = Inl error \<longrightarrow>
           (\<exists>resp after. chat rt calls supabase req = (Ok resp, after) \<and>
              res_response resp = ''Error generating web search response.'')) \<and>
         (\<not> body_webSearch req \<and> HF_API_KEY rt \<and>
          chat_completions_stream rt
            (sanyai_request rt depthInstruction
               (formattedHistory (langchain_inputs
                  (snd (snd (chat_context rt calls supabase req)))))) = Inl error \<longrightarrow>
           (\<exists>resp after. chat rt calls supabase req = (Ok resp, after) \<and>
              res_response resp =
                ''Error calling AI Model: '' @ error_message error @
                ''. Please check your API key and connection.''))"
proof -
  from chat_answer[OF assms(1), of rt calls supabase]
  obtain cid after response usage where
    r: "chat_reply rt (body_webSearch req) (field_text (body_message req)) (request_depth req)
       (snd (snd (chat_context rt calls supabase req))) = Some (response, usage)"
    and c: "chat rt calls supabase req =
       (Ok \<lparr>res_chat_id = cid, res_response = response, res_usage = usage\<rparr>, after)"
    by blast
  have web: "response = ''Error generating web search response.''"
    if "body_webSearch req"
      and "chat_completions_create rt
            (kimi_request (search_prompt (field_text (body_message req))
               (flow_context (performWebSearch rt (field_text (body_message req))))
               depthInstruction)) = Inl error"
  proof -
    have "handleWebSearchFlow rt (field_text (body_message req)) (Some (request_depth req)) =
        Some kimi_error"
      using assms(2) that(2) by (rule handleWebSearchFlow_error)
    with r that(1) show ?thesis
      unfolding chat_reply_def by (simp add: kimi_error_def)
  qed
  have std: "response = model_error (error_message error)"
    if "\<not> body_webSearch req" and "HF_API_KEY rt"
      and "chat_completions_stream rt
            (sanyai_request rt depthInstruction
               (formattedHistory (langchain_inputs
                  (snd (snd (chat_context rt calls supabase req)))))) = Inl error"
  proof -
    have "generateResponse rt
        (formattedHistory (langchain_inputs (snd (snd (chat_context rt calls supabase req)))))
        (Some (request_depth req)) = model_error (error_message error)"
      using that(2) assms(2) that(3) by (rule generateResponse_error)
    with r that(1) show ?thesis
      by (simp add: chat_standard_reply)
  qed
  show ?thesis
    unfolding c using web std by (simp add: model_error_def)
qed

lemma failing_calls:
  "chat_completions_create failing_runtime r = Inl (JsError ''401 Unauthorized'')"
  "chat_completions_stream failing_runtime r = Inl (JsError ''401 Unauthorized'')"
  "HF_API_KEY failing_runtime"
  by (simp_all add: failing_runtime_def demo_runtime_def)

theorem C6_model_errors_become_replies_witness:
  "(\<exists>resp after. chat failing_runtime demo_calls None web_request = (Ok resp, after) \<and>
      res_response resp = ''Error generating web search response.'') \<and>
   (\<exists>resp after. chat failing_runtime demo_calls None demo_request = (Ok resp, after) \<and>
      res_response resp =
        ''Error calling AI Model: 401 Unauthorized. Please check your API key and connection.'')"
proof
  have "\<not> absent (body_message web_request)" and w: "body_webSearch web_request"
    and "depth_text (request_depth web_request) = depth_text ''Concise''"
    by (simp_all add: web_request_def absent_def request_depth_def field_text_def)
  from C6_model_errors_become_replies[OF this(1) this(3)[unfolded depth_text_labels(1)],
      of failing_runtime "JsError ''401 Unauthorized''" demo_calls None]
  show "\<exists>resp after. chat failing_runtime demo_calls None web_request = (Ok resp, after) \<and>
      res_response resp = ''Error generating web search response.''"
    using w by (simp add: failing_calls)
next
  have "\<not> absent (body_message demo_request)" and w: "\<not> body_webSearch demo_request"
    and "depth_text (request_depth demo_request) = depth_text ''Short''"
    by (simp_all add: demo_request_def absent_def request_depth_def field_text_def)
  from C6_model_errors_become_replies[OF this(1) this(3)[unfolded depth_text_labels(2)],
      of failing_runtime "JsError ''401 Unauthorized''" demo_calls None]
  show "\<exists>resp after. chat failing_runtime demo_calls None demo_request = (Ok resp, after) \<and>
      res_response resp =
        ''Error calling AI Model: 401 Unauthorized. Please check your API key and connection.''"
    using w by (simp add: failing_calls)
qed

lemma chat_session_local:
  assumes "absent chat_id"
    and "supabase = None \<or>
      (\<exists>db. supabase = Some db \<and> (create_fault calls \<or> generated_id calls \<in> set (chats db)))"
  shows "fst (chat_session rt calls supabase chat_id) = ''local-'' @ show_nat (Date_now rt)"
proof (cases supabase)
  case None
  with assms(1) show ?thesis by (simp add: chat_session_new local_id_def)
next
  case (Some db)
  with assms(2) have "create_fault calls \<or> generated_id calls \<in> set (chats db)" by simp
  with Some assms(1) show ?thesis by (simp add: chat_session_new local_id_def)
qed

text \<open>
  Claim C7. A request with a message is answered with status 200 whatever the database
  does; when it has no \<open>chat_id\<close> and there is no database client or the insert into
  \<open>chats\<close> fails, \<open>chat_id\<close> is \<open>local-\<close> followed by the clock's value. Without a
  client, or when the select fails, the conversation context is the single message of the
  request, and \<open>GET /chat/:id\<close> and \<open>GET /chats\<close> answer with an empty list.
\<close>

theorem C7_database_failures_degrade:
  "(\<not> absent (body_message req) \<longrightarrow>
      (\<exists>resp after. chat rt calls supabase req = (Ok resp, after) \<and>
         (absent (body_chat_id req) \<and>
          (supabase = None \<or>
           (\<exists>db. supabase = Some db \<and>
              (create_fault calls \<or> generated_id calls \<in> set (chats db)))) \<longrightarrow>
          res_chat_id resp = ''local-'' @ show_nat (Date_now rt)))) \<and>
   (supabase = None \<or> history_fault calls \<longrightarrow>
      load_conversation calls supabase cid message =
        [\<lparr>msg_role = ''user'', msg_content = message\<rparr>]) \<and>
   (supabase = None \<or> fault \<longrightarrow>
      get_chat fault supabase cid = [] \<and> get_chats fault supabase = [])"
proof (intro conjI impI)
  assume m: "\<not> absent (body_message req)"
  from chat_present[OF m, of rt calls supabase] obtain response usage after where
    c: "chat rt calls supabase req =
       (Ok \<lparr>res_chat_id = fst (chat_session rt calls supabase (body_chat_id req)),
            res_response = response, res_usage = usage\<rparr>, after)"
    by blast
  have "absent (body_chat_id req) \<and>
        (supabase = None \<or>
         (\<exists>db. supabase = Some db \<and>
            (create_fault calls \<or> generated_id calls \<in> set (chats db)))) \<longrightarrow>
        fst (chat_session rt calls supabase (body_chat_id req)) =
          ''local-'' @ show_nat (Date_now rt)"
    using chat_session_local by blast
  then show "\<exists>resp after. chat rt calls supabase req = (Ok resp, after) \<and>
         (absent (body_chat_id req) \<and>
          (supabase = None \<or>
           (\<exists>db. supabase = Some db \<and>
              (create_fault calls \<or> generated_id calls \<in> set (chats db)))) \<longrightarrow>
          res_chat_id resp = ''local-'' @ show_nat (Date_now rt))"
    unfolding c by simp
next
  assume "supabase = None \<or> history_fault calls"
  then show "load_conversation calls supabase cid message =
      [\<lparr>msg_role = ''user'', msg_content = message\<rparr>]"
    unfolding load_conversation_def select_messages_def by (auto split: option.splits)
next
  assume "supabase = None \<or> fault"
  then show "get_chat fault supabase cid = []"
    unfolding get_chat_def select_messages_def by (auto split: option.splits)
next
  assume "supabase = None \<or> fault"
  then show "get_chats fault supabase = []"
    unfolding get_chats_def select_chats_def by (auto split: option.splits)
qed

lemma show_1700: "show_nat 1700 = ''1700''"
  by (simp add: show_nat.simps digit_def)

theorem C7_database_failures_degrade_witness:
  "(\<exists>resp after. chat demo_runtime (demo_calls\<lparr>create_fault := True\<rparr>) (Some demo_db) web_request =
      (Ok resp, after) \<and> res_chat_id resp = ''local-1700'') \<and>
   load_conversation (demo_calls\<lparr>history_fault := True\<rparr>) (Some demo_db) ''c1'' ''Who won?'' =
     [\<lparr>msg_role = ''user'', msg_content = ''Who won?''\<rparr>] \<and>
   get_chat True (Some demo_db) ''c1'' = [] \<and> get_chats True (Some demo_db) = [] \<and>
   get_chat False None ''c1'' = [] \<and> get_chats False None = []"
  using C7_database_failures_degrade[of web_request demo_runtime "demo_calls\<lparr>create_fault := True\<rparr>"
      "Some demo_db" "''c1''" "''Who won?''" True]
    C7_database_failures_degrade[of web_request demo_runtime "demo_calls\<lparr>history_fault := True\<rparr>"
      "Some demo_db" "''c1''" "''Who won?''" True]
    C7_database_failures_degrade[of web_request demo_runtime demo_calls None "''c1''" "''Who won?''" False]
  by (simp add: web_request_def absent_def demo_calls_def demo_runtime_def show_1700)

section \<open>The sources section of the web-search flow\<close>

lemma source_lines_spec:
  assumes "\<forall>s\<in>set srcs. js_to_string (src_title s) \<noteq> None \<and> js_to_string (src_link s) \<noteq> None"
  shows "source_lines i response srcs =
    Some (response @ concat (map (\<lambda>(k, s). numbered_link (Suc k) s) (enumerate i srcs)))"
  using assms
proof (induction srcs arbitrary: i response)
  case Nil
  show ?case by simp
next
  case (Cons s srcs)
  from Cons.prems obtain t l where
    tl: "js_to_string (src_title s) = Some t" "js_to_string (src_link s) = Some l"
    by auto
  have "source_lines (i + 1)
      (response @ show_nat (i + 1) @ ''. ['' @ t @ '']('' @ l @ '')'' @ [CHR 0x0A]) srcs =
    Some ((response @ show_nat (i + 1) @ ''. ['' @ t @ '']('' @ l @ '')'' @ [CHR 0x0A]) @
      concat (map (\<lambda>(k, s). numbered_link (Suc k) s) (enumerate (i + 1) srcs)))"
    using Cons.prems by (intro Cons.IH) simp
  with tl show ?case
    by (simp add: numbered_link_def printed_def)
qed

lemma append_sources_spec:
  assumes "srcs \<noteq> []"
    and "\<forall>s\<in>set srcs. js_to_string (src_title s) \<noteq> None \<and> js_to_string (src_link s) \<noteq> None"
  shows "append_sources response srcs = Some (response @ sources_section_spec srcs)"
  using assms source_lines_spec[of srcs 0 "response @ sources_header"]
  unfolding append_sources_def sources_section_spec_def by simp

lemma handleWebSearchFlow_sources:
  assumes "performWebSearch rt query = Some found" and "sr_sources found \<noteq> []"
    and "depth_text depth = Some depthInstruction"
    and "chat_completions_create rt
           (kimi_request (search_prompt query (flow_context (Some found)) depthInstruction)) =
         Inr completion"
    and "\<forall>s\<in>set (sr_sources found).
           js_to_string (src_title s) \<noteq> None \<and> js_to_string (src_link s) \<noteq> None"
  shows "\<exists>usage. handleWebSearchFlow rt query (Some depth) =
     Some \<lparr>fr_response = synthesis_text completion @ sources_section_spec (sr_sources found),
           fr_usage = usage\<rparr>"
proof -
  have "append_sources (synthesis_text completion) (sr_sources found) =
      Some (synthesis_text completion @ sources_section_spec (sr_sources found))"
    using assms(2,5) by (rule append_sources_spec)
  with assms(1,3,4) show ?thesis
    unfolding handleWebSearchFlow_def by (simp add: Let_def flow_sources_def)
qed

text \<open>
  Claim C2, as amended. A request with a message and \<open>webSearch\<close> set is answered with
  status 200 by the web-search flow: \<open>response\<close> and \<open>usage\<close> are those of
  \<open>handleWebSearchFlow\<close>. Whenever the search yields at least one source, the synthesis
  call returns a completion, and every source's title and link convert to a string, the
  response is the text of the completion followed by the sources section: the header and
  one numbered markdown link per source.
\<close>

theorem C2_web_search_appends_sources:
  assumes "\<not> absent (body_message req)" and "body_webSearch req"
  shows "\<exists>resp after flow.
     chat rt calls supabase req = (Ok resp, after) \<and>
     handleWebSearchFlow rt (field_text (body_message req)) (Some (request_depth req)) =
       Some flow \<and>
     res_response resp = fr_response flow \<and> res_usage resp = fr_usage flow \<and>
     (\<forall>found depthInstruction completion.
        performWebSearch rt (field_text (body_message req)) = Some found \<and>
        sr_sources found \<noteq> [] \<and>
        depth_text (request_depth req) = Some depthInstruction \<and>
        chat_completions_create rt
          (kimi_request (search_prompt (field_text (body_message req))
             (flow_context (Some found)) depthInstruction)) = Inr completion \<and>
        (\<forall>s\<in>set (sr_sources found).
           js_to_string (src_title s) \<noteq> None \<and> js_to_string (src_link s) \<noteq> None) \<longrightarrow>
        res_response resp =
          synthesis_text completion @ sources_section_spec (sr_sources found))"
proof -
  from chat_answer[OF assms(1), of rt calls supabase]
  obtain cid after response usage where
    r: "chat_reply rt (body_webSearch req) (field_text (body_message req)) (request_depth req)
       (snd (snd (chat_context rt calls supabase req))) = Some (response, usage)"
    and c: "chat rt calls supabase req =
       (Ok \<lparr>res_chat_id = cid, res_response = response, res_usage = usage\<rparr>, after)"
    by blast
  from r assms(2) obtain flow where
    f: "handleWebSearchFlow rt (field_text (body_message req)) (Some (request_depth req)) =
       Some flow"
    and fr: "response = fr_response flow" "usage = fr_usage flow"
    unfolding chat_reply_def by auto
  have "response = synthesis_text completion @ sources_section_spec (sr_sources found)"
    if "performWebSearch rt (field_text (body_message req)) = Some found"
      and "sr_sources found \<noteq> []"
      and "depth_text (request_depth req) = Some depthInstruction"
      and "chat_completions_create rt
          (kimi_request (search_prompt (field_text (body_message req))
             (flow_context (Some found)) depthInstruction)) = Inr completion"
      and "\<forall>s\<in>set (sr_sources found).
           js_to_string (src_title s) \<noteq> None \<and> js_to_string (src_link s) \<noteq> None"
    for found depthInstruction completion
    using handleWebSearchFlow_sources[OF that] f fr by auto
  with c f fr show ?thesis
    by (intro exI[of _ "\<lparr>res_chat_id = cid, res_response = response, res_usage = usage\<rparr>"]
        exI[of _ after] exI[of _ flow]) simp
qed

lemma demo_section:
  "sources_section_spec (sr_sources demo_result) =
     sources_header @ ''1. [NFL](https://nfl.example)'' @ [CHR 0x0A] @
     ''2. [Source](https://a.example/1)'' @ [CHR 0x0A] @
     ''3. [Source](https://b.example/2)'' @ [CHR 0x0A]"
  by (simp add: sources_section_spec_def demo_result_def enumerate_eq_zip numbered_link_def
      printed_def show_nat.simps digit_def upt_rec)

theorem C2_web_search_appends_sources_witness:
  "\<exists>resp after. chat demo_runtime demo_calls None web_request = (Ok resp, after) \<and>
     res_response resp = ''Answer.'' @ sources_header @
       ''1. [NFL](https://nfl.example)'' @ [CHR 0x0A] @
       ''2. [Source](https://a.example/1)'' @ [CHR 0x0A] @
       ''3. [Source](https://b.example/2)'' @ [CHR 0x0A]"
proof -
  have m: "\<not> absent (body_message web_request)" and w: "body_webSearch web_request"
    by (simp_all add: web_request_def absent_def)
  have q: "field_text (body_message web_request) = ''who won''"
    by (simp add: web_request_def field_text_def)
  have d: "depth_text (request_depth web_request) = depth_text ''Concise''"
    by (simp add: web_request_def absent_def request_depth_def field_text_def)
  have p: "\<forall>s\<in>set (sr_sources demo_result).
      js_to_string (src_title s) \<noteq> None \<and> js_to_string (src_link s) \<noteq> None"
    by (simp add: demo_result_def)
  have k: "chat_completions_create demo_runtime r =
      Inr \<lparr>completion_content = Some ''Answer.'', completion_usage = Undefined\<rparr>" for r
    by (simp add: demo_runtime_def)
  have n: "sr_sources demo_result \<noteq> []" by (simp add: demo_result_def)
  have s: "synthesis_text \<lparr>completion_content = Some ''Answer.'', completion_usage = Undefined\<rparr> =
      ''Answer.''"
    by (simp add: synthesis_text_def)
  from C2_web_search_appends_sources[OF m w, of demo_runtime demo_calls None]
  obtain resp after where c: "chat demo_runtime demo_calls None web_request = (Ok resp, after)"
    and i: "\<forall>found depthInstruction completion.
        performWebSearch demo_runtime (field_text (body_message web_request)) = Some found \<and>
        sr_sources found \<noteq> [] \<and>
        depth_text (request_depth web_request) = Some depthInstruction \<and>
        chat_completions_create demo_runtime
          (kimi_request (search_prompt (field_text (body_message web_request))
             (flow_context (Some found)) depthInstruction)) = Inr completion \<and>
        (\<forall>s\<in>set (sr_sources found).
           js_to_string (src_title s) \<noteq> None \<and> js_to_string (src_link s) \<noteq> None) \<longrightarrow>
        res_response resp =
          synthesis_text completion @ sources_section_spec (sr_sources found)"
    by blast
  have "performWebSearch demo_runtime (field_text (body_message web_request)) = Some demo_result"
    unfolding q by (rule demo_search)
  with i n k p d[unfolded depth_text_labels(1)] have
    "res_response resp =
       synthesis_text \<lparr>completion_content = Some ''Answer.'', completion_usage = Undefined\<rparr> @
       sources_section_spec (sr_sources demo_result)"
    by blast
  with c show ?thesis
    unfolding s demo_section by simp
qed

text \<open>
  Claim C2 as stated fails when the synthesis call throws: the search found three
  sources, and the response is the error text, which does not end with the sources
  section.
\<close>

theorem C2_synthesis_error_counterexample:
  "body_webSearch web_request \<and>
   performWebSearch failing_runtime ''who won'' = Some demo_result \<and>
   sr_sources demo_result \<noteq> [] \<and>
   chat failing_runtime demo_calls None web_request =
     (Ok \<lparr>res_chat_id = ''local-1700'',
          res_response = ''Error generating web search response.'', res_usage = Obj []\<rparr>,
      None) \<and>
   \<not> suffix (sources_section_spec (sr_sources demo_result))
       ''Error generating web search response.''"
proof (intro conjI)
  show "body_webSearch web_request" by (simp add: web_request_def)
  have "performWebSearch failing_runtime ''who won'' = performWebSearch demo_runtime ''who won''"
    by (simp add: performWebSearch_def failing_runtime_def)
  then show "performWebSearch failing_runtime ''who won'' = Some demo_result"
    by (simp add: demo_search)
  show "sr_sources demo_result \<noteq> []" by (simp add: demo_result_def)
  have "handleWebSearchFlow failing_runtime ''who won'' (Some ''Concise'') = Some kimi_error"
    using depth_text_labels(1) failing_calls(1) by (rule handleWebSearchFlow_error)
  moreover have "show_nat (Date_now failing_runtime) = ''1700''"
    by (simp add: failing_runtime_def demo_runtime_def show_nat.simps digit_def)
  ultimately show "chat failing_runtime demo_calls None web_request =
     (Ok \<lparr>res_chat_id = ''local-1700'',
          res_response = ''Error generating web search response.'', res_usage = Obj []\<rparr>,
      None)"
    by (simp add: chat_def chat_context_def web_request_def absent_def field_text_def
        request_depth_def chat_session_def local_id_def store_message_def chat_reply_def
        kimi_error_def Let_def)
  have l1: "last (sources_section_spec (sr_sources demo_result)) = CHR 0x0A"
    by (simp add: demo_section)
  have l2: "last ''Error generating web search response.'' = CHR ''.''" by simp
  have ne: "sources_section_spec (sr_sources demo_result) \<noteq> []"
    by (simp add: demo_section)
  show "\<not> suffix (sources_section_spec (sr_sources demo_result))
       ''Error generating web search response.''"
  proof
    assume "suffix (sources_section_spec (sr_sources demo_result))
       ''Error generating web search response.''"
    then obtain zs where "''Error generating web search response.'' =
        zs @ sources_section_spec (sr_sources demo_result)"
      unfolding suffix_def by blast
    then have "last ''Error generating web search response.'' =
        last (zs @ sources_section_spec (sr_sources demo_result))"
      by (rule arg_cong)
    also have "\<dots> = last (sources_section_spec (sr_sources demo_result))"
      using ne by (rule last_appendR)
    finally show False
      unfolding l1 l2 by simp
  qed
qed

section \<open>Depth: instruction and token ceiling\<close>

text \<open>The lookup on a label returns the label's own entry of the table.\<close>

lemma label_instruction:
  assumes "depth \<in> {''Concise'', ''Short'', ''Medium'', ''Large''}"
  shows "\<exists>instruction. map_of depthInstructions depth = Some (Str instruction) \<and>
     depth_text depth = Some instruction"
  using assms
  by (auto simp: depth_text_def depth_instruction_def depthInstructions_def js_or_def)

text \<open>With an instruction looked up, each flow sends one request: the one written out
  here, with the instruction in its prompt and a ceiling of 2048 tokens.\<close>

lemma generateResponse_request:
  assumes "HF_API_KEY rt" and "depth_text depth = Some instruction"
  shows "generateResponse rt prompt (Some depth) =
    (case chat_completions_stream rt
            \<lparr>req_model = HF_MODEL rt,
             req_messages =
               \<lparr>msg_role = ''system'', msg_content = system_prompt instruction\<rparr> # prompt,
             req_max_tokens = 2048, req_temperature = 7 / 10, req_stream = True\<rparr> of
       Inl error \<Rightarrow> model_error (error_message error)
     | Inr chunks \<Rightarrow>
         (let out = concat (map (\<lambda>c. case c of Some s \<Rightarrow> s | None \<Rightarrow> []) chunks)
          in if out = [] then empty_reply else out))"
  using assms unfolding generateResponse_def sanyai_request_def by (simp add: Let_def)

lemma handleWebSearchFlow_request:
  assumes "depth_text depth = Some instruction"
  shows "handleWebSearchFlow rt query (Some depth) =
    Some (case chat_completions_create rt
                 \<lparr>req_model = ''moonshotai/Kimi-K2-Instruct-0905:groq'',
                  req_messages =
                    [\<lparr>msg_role = ''system'', msg_content =
                        ''You are Kimi, an intelligent AI assistant capable of synthesizing '' @
                        ''web search results.''\<rparr>,
                     \<lparr>msg_role = ''user'', msg_content =
                        search_prompt query (flow_context (performWebSearch rt query))
                          instruction\<rparr>],
                  req_max_tokens = 2048, req_temperature = 7 / 10, req_stream = False\<rparr> of
            Inl e \<Rightarrow> kimi_error
          | Inr completion \<Rightarrow>
              (case append_sources (synthesis_text completion)
                      (flow_sources (performWebSearch rt query)) of
                 None \<Rightarrow> kimi_error
               | Some response \<Rightarrow>
                   \<lparr>fr_response = response,
                    fr_usage = js_or (completion_usage completion) zero_usage\<rparr>))"
  using assms unfolding handleWebSearchFlow_def kimi_request_def by (simp add: Let_def)

lemma system_prompt_suffix: "suffix instruction (system_prompt instruction)"
  unfolding system_prompt_def by (rule suffixI) (rule refl)

lemma sublist_after: "sublist xs ys \<Longrightarrow> sublist xs (ps @ ys)"
  unfolding sublist_def by (metis append_assoc)

lemma search_prompt_holds: "sublist instruction (search_prompt query context instruction)"
  unfolding search_prompt_def by (intro sublist_append_rightI sublist_after)

text \<open>The handler answers every request that has a message, with the reply of the flow
  its switch selects, called with the depth of the request.\<close>

lemma chat_by_depth:
  assumes "\<not> absent (body_message req)"
  shows "\<exists>resp after. chat rt calls supabase req = (Ok resp, after) \<and>
     (if body_webSearch req
      then \<exists>flow. handleWebSearchFlow rt (field_text (body_message req))
                    (Some (request_depth req)) = Some flow \<and>
                  res_response resp = fr_response flow
      else res_response resp =
             generateResponse rt
               (formattedHistory (langchain_inputs
                  (snd (snd (chat_context rt calls supabase req)))))
               (Some (request_depth req)))"
proof -
  from chat_answer[OF assms, of rt calls supabase]
  obtain cid after response usage where
    r: "chat_reply rt (body_webSearch req) (field_text (body_message req)) (request_depth req)
       (snd (snd (chat_context rt calls supabase req))) = Some (response, usage)"
    and c: "chat rt calls supabase req =
       (Ok \<lparr>res_chat_id = cid, res_response = response, res_usage = usage\<rparr>, after)"
    by blast
  show ?thesis
  proof (cases "body_webSearch req")
    case True
    with r obtain flow where
      "handleWebSearchFlow rt (field_text (body_message req)) (Some (request_depth req)) =
         Some flow" "response = fr_response flow"
      unfolding chat_reply_def by auto
    with c True show ?thesis by simp
  next
    case False
    with r have "response = generateResponse rt
        (formattedHistory (langchain_inputs (snd (snd (chat_context rt calls supabase req)))))
        (Some (request_depth req))"
      by (simp add: chat_standard_reply)
    with c False show ?thesis by simp
  qed
qed

text \<open>What the probing endpoint makes of each flow and of the handler.\<close>

lemma probe_calls:
  "HF_API_KEY (ceiling_probe n)"
  "chat_completions_stream (ceiling_probe n) r =
     Inr [Some (if req_max_tokens r = n then ''yes'' else ''no'')]"
  "chat_completions_create (ceiling_probe n) r =
     Inr \<lparr>completion_content = Some (if req_max_tokens r = n then ''yes'' else ''no''),
          completion_usage = Undefined\<rparr>"
  "performWebSearch (ceiling_probe n) query = None"
  by (simp_all add: ceiling_probe_def demo_runtime_def performWebSearch_def)

lemma probe_standard:
  "generateResponse (ceiling_probe n) prompt (Some depth) = (if n = 2048 then ''yes'' else ''no'')"
proof -
  obtain instruction where "depth_text depth = Some instruction"
    using depth_text_total by blast
  from generateResponse_request[OF probe_calls(1) this, of n prompt]
  show ?thesis by (simp add: probe_calls)
qed

lemma probe_web:
  "\<exists>usage. handleWebSearchFlow (ceiling_probe n) query (Some depth) =
     Some \<lparr>fr_response = (if n = 2048 then ''yes'' else ''no''), fr_usage = usage\<rparr>"
proof -
  obtain instruction where "depth_text depth = Some instruction"
    using depth_text_total by blast
  from handleWebSearchFlow_request[OF this, of "ceiling_probe n" query]
  show ?thesis
    by (simp add: probe_calls flow_sources_def append_sources_def synthesis_text_def)
qed

lemma probe_chat:
  "\<exists>resp after.
     chat (ceiling_probe n) demo_calls None (depth_request depth webSearch) = (Ok resp, after) \<and>
     res_response resp = (if n = 2048 then ''yes'' else ''no'')"
proof -
  have m: "\<not> absent (body_message (depth_request depth webSearch))"
    and w: "body_webSearch (depth_request depth webSearch) = webSearch"
    by (simp_all add: depth_request_def absent_def)
  from chat_by_depth[OF m, of "ceiling_probe n" demo_calls None]
  obtain resp after where
    c: "chat (ceiling_probe n) demo_calls None (depth_request depth webSearch) = (Ok resp, after)"
    and r: "if webSearch
       then \<exists>flow. handleWebSearchFlow (ceiling_probe n)
                     (field_text (body_message (depth_request depth webSearch)))
                     (Some (request_depth (depth_request depth webSearch))) = Some flow \<and>
                   res_response resp = fr_response flow
       else res_response resp =
              generateResponse (ceiling_probe n)
                (formattedHistory (langchain_inputs
                   (snd (snd (chat_context (ceiling_probe n) demo_calls None
                                (depth_request depth webSearch))))))
                (Some (request_depth (depth_request depth webSearch)))"
    unfolding w by blast
  have "res_response resp = (if n = 2048 then ''yes'' else ''no'')"
  proof (cases webSearch)
    case True
    with r obtain flow where
      f: "handleWebSearchFlow (ceiling_probe n)
            (field_text (body_message (depth_request depth webSearch)))
            (Some (request_depth (depth_request depth webSearch))) = Some flow"
      and e: "res_response resp = fr_response flow"
      by auto
    from probe_web[of n "field_text (body_message (depth_request depth webSearch))"
        "request_depth (depth_request depth webSearch)"] f
    have "fr_response flow = (if n = 2048 then ''yes'' else ''no'')" by auto
    with e show ?thesis by simp
  next
    case False
    with r show ?thesis by (simp only: if_False probe_standard)
  qed
  with c show ?thesis by blast
qed

text \<open>
  Claim C5, as amended. The depth is mapped by a static lookup to a fixed instruction:
  the four labels have the four texts below, and on a label the instruction is the
  label's entry of the table. That instruction is inserted into the prompt of both flows:
  \<open>generateResponse\<close> sends exactly the request whose system prompt ends with it,
  \<open>handleWebSearchFlow\<close> exactly the request whose user prompt contains it. The token
  ceiling is not mapped from the depth: both requests ask for at most 2048 tokens, for
  every depth. And \<open>chat\<close> answers a request of that depth with the reply of the flow
  that the web-search switch selects, called with that depth.
\<close>

theorem C5_depth_selects_instruction:
  "depth_text ''Concise'' = Some
     (''IMPORTANT CONSTRAINT: Keep your response extremely concise, '' @
      ''approximately 100-150 words.'') \<and>
   depth_text ''Short'' = Some
     (''IMPORTANT CONSTRAINT: Keep your response short and to the point, '' @
      ''approximately 200-300 words.'') \<and>
   depth_text ''Medium'' = Some
     (''IMPORTANT CONSTRAINT: Provide a standard medium-length response, '' @
      ''approximately 400-600 words.'') \<and>
   depth_text ''Large'' = Some
     (''IMPORTANT CONSTRAINT: Provide a very detailed, comprehensive, '' @
      ''and in-depth response, approximately 800-1000 words.'') \<and>
   (\<exists>instruction.
      depth_text depth = Some instruction \<and>
      (depth \<in> {''Concise'', ''Short'', ''Medium'', ''Large''} \<longrightarrow>
         map_of depthInstructions depth = Some (Str instruction)) \<and>
      (\<forall>prompt. HF_API_KEY rt \<longrightarrow>
         generateResponse rt prompt (Some depth) =
           (case chat_completions_stream rt
                   \<lparr>req_model = HF_MODEL rt,
                    req_messages =
                      \<lparr>msg_role = ''system'', msg_content = system_prompt instruction\<rparr> #
                      prompt,
                    req_max_tokens = 2048, req_temperature = 7 / 10, req_stream = True\<rparr> of
              Inl error \<Rightarrow> model_error (error_message error)
            | Inr chunks \<Rightarrow>
                (let out = concat (map (\<lambda>c. case c of Some s \<Rightarrow> s | None \<Rightarrow> []) chunks)
                 in if out = [] then empty_reply else out))) \<and>
      suffix instruction (system_prompt instruction) \<and>
      (\<forall>query.
         handleWebSearchFlow rt query (Some depth) =
           Some (case chat_completions_create rt
                        \<lparr>req_model = ''moonshotai/Kimi-K2-Instruct-0905:groq'',
                         req_messages =
                           [\<lparr>msg_role = ''system'', msg_content =
                               ''You are Kimi, an intelligent AI assistant capable of '' @
                               ''synthesizing web search results.''\<rparr>,
                            \<lparr>msg_role = ''user'', msg_content =
                               search_prompt query (flow_context (performWebSearch rt query))
                                 instruction\<rparr>],
                         req_max_tokens = 2048, req_temperature = 7 / 10,
                         req_stream = False\<rparr> of
                   Inl e \<Rightarrow> kimi_error
                 | Inr completion \<Rightarrow>
                     (case append_sources (synthesis_text completion)
                             (flow_sources (performWebSearch rt query)) of
                        None \<Rightarrow> kimi_error
                      | Some response \<Rightarrow>
                          \<lparr>fr_response = response,
                           fr_usage = js_or (completion_usage completion) zero_usage\<rparr>)) \<and>
         sublist instruction
           (search_prompt query (flow_context (performWebSearch rt query)) instruction)) \<and>
      (\<forall>req. \<not> absent (body_message req) \<and> request_depth req = depth \<longrightarrow>
         (\<exists>resp after. chat rt calls supabase req = (Ok resp, after) \<and>
            (if body_webSearch req
             then \<exists>flow. handleWebSearchFlow rt (field_text (body_message req)) (Some depth) =
                           Some flow \<and>
                         res_response resp = fr_response flow
             else res_response resp =
                    generateResponse rt
                      (formattedHistory (langchain_inputs
                         (snd (snd (chat_context rt calls supabase req)))))
                      (Some depth)))))"
proof (intro conjI)
  obtain instruction where i: "depth_text depth = Some instruction"
    using depth_text_total by blast
  have l: "map_of depthInstructions depth = Some (Str instruction)"
    if "depth \<in> {''Concise'', ''Short'', ''Medium'', ''Large''}"
    using label_instruction[OF that] i by auto
  have c: "\<exists>resp after. chat rt calls supabase req = (Ok resp, after) \<and>
            (if body_webSearch req
             then \<exists>flow. handleWebSearchFlow rt (field_text (body_message req)) (Some depth) =
                           Some flow \<and>
                         res_response resp = fr_response flow
             else res_response resp =
                    generateResponse rt
                      (formattedHistory (langchain_inputs
                         (snd (snd (chat_context rt calls supabase req)))))
                      (Some depth))"
    if "\<not> absent (body_message req)" and "request_depth req = depth" for req
    using chat_by_depth[OF that(1), of rt calls supabase] unfolding that(2) .
  show "\<exists>instruction.
      depth_text depth = Some instruction \<and>
      (depth \<in> {''Concise'', ''Short'', ''Medium'', ''Large''} \<longrightarrow>
         map_of depthInstructions depth = Some (Str instruction)) \<and>
      (\<forall>prompt. HF_API_KEY rt \<longrightarrow>
         generateResponse rt prompt (Some depth) =
           (case chat_completions_stream rt
                   \<lparr>req_model = HF_MODEL rt,
                    req_messages =
                      \<lparr>msg_role = ''system'', msg_content = system_prompt instruction\<rparr> #
                      prompt,
                    req_max_tokens = 2048, req_temperature = 7 / 10, req_stream = True\<rparr> of
              Inl error \<Rightarrow> model_error (error_message error)
            | Inr chunks \<Rightarrow>
                (let out = concat (map (\<lambda>c. case c of Some s \<Rightarrow> s | None \<Rightarrow> []) chunks)
                 in if out = [] then empty_reply else out))) \<and>
      suffix instruction (system_prompt instruction) \<and>
      (\<forall>query.
         handleWebSearchFlow rt query (Some depth) =
           Some (case chat_completions_create rt
                        \<lparr>req_model = ''moonshotai/Kimi-K2-Instruct-0905:groq'',
                         req_messages =
                           [\<lparr>msg_role = ''system'', msg_content =
                               ''You are Kimi, an intelligent AI assistant capable of '' @
                               ''synthesizing web search results.''\<rparr>,
                            \<lparr>msg_role = ''user'', msg_content =
                               search_prompt query (flow_context (performWebSearch rt query))
                                 instruction\<rparr>],
                         req_max_tokens = 2048, req_temperature = 7 / 10,
                         req_stream = False\<rparr> of
                   Inl e \<Rightarrow> kimi_error
                 | Inr completion \<Rightarrow>
                     (case append_sources (synthesis_text completion)
                             (flow_sources (performWebSearch rt query)) of
                        None \<Rightarrow> kimi_error
                      | Some response \<Rightarrow>
                          \<lparr>fr_response = response,
                           fr_usage = js_or (completion_usage completion) zero_usage\<rparr>)) \<and>
         sublist instruction
           (search_prompt query (flow_context (performWebSearch rt query)) instruction)) \<and>
      (\<forall>req. \<not> absent (body_message req) \<and> request_depth req = depth \<longrightarrow>
         (\<exists>resp after. chat rt calls supabase req = (Ok resp, after) \<and>
            (if body_webSearch req
             then \<exists>flow. handleWebSearchFlow rt (field_text (body_message req)) (Some depth) =
                           Some flow \<and>
                         res_response resp = fr_response flow
             else res_response resp =
                    generateResponse rt
                      (formattedHistory (langchain_inputs
                         (snd (snd (chat_context rt calls supabase req)))))
                      (Some depth))))"
  proof (intro exI[of _ instruction] conjI allI impI)
    show "depth_text depth = Some instruction" by (rule i)
    show "map_of depthInstructions depth = Some (Str instruction)"
      if "depth \<in> {''Concise'', ''Short'', ''Medium'', ''Large''}"
      using that by (rule l)
    show "generateResponse rt prompt (Some depth) =
           (case chat_completions_stream rt
                   \<lparr>req_model = HF_MODEL rt,
                    req_messages =
                      \<lparr>msg_role = ''system'', msg_content = system_prompt instruction\<rparr> #
                      prompt,
                    req_max_tokens = 2048, req_temperature = 7 / 10, req_stream = True\<rparr> of
              Inl error \<Rightarrow> model_error (error_message error)
            | Inr chunks \<Rightarrow>
                (let out = concat (map (\<lambda>c. case c of Some s \<Rightarrow> s | None \<Rightarrow> []) chunks)
                 in if out = [] then empty_reply else out))"
      if "HF_API_KEY rt" for prompt
      using that i by (rule generateResponse_request)
    show "suffix instruction (system_prompt instruction)" by (rule system_prompt_suffix)
    show "handleWebSearchFlow rt query (Some depth) =
           Some (case chat_completions_create rt
                        \<lparr>req_model = ''moonshotai/Kimi-K2-Instruct-0905:groq'',
                         req_messages =
                           [\<lparr>msg_role = ''system'', msg_content =
                               ''You are Kimi, an intelligent AI assistant capable of '' @
                               ''synthesizing web search results.''\<rparr>,
                            \<lparr>msg_role = ''user'', msg_content =
                               search_prompt query (flow_context (performWebSearch rt query))
                                 instruction\<rparr>],
                         req_max_tokens = 2048, req_temperature = 7 / 10,
                         req_stream = False\<rparr> of
                   Inl e \<Rightarrow> kimi_error
                 | Inr completion \<Rightarrow>
                     (case append_sources (synthesis_text completion)
                             (flow_sources (performWebSearch rt query)) of
                        None \<Rightarrow> kimi_error
                      | Some response \<Rightarrow>
                          \<lparr>fr_response = response,
                           fr_usage = js_or (completion_usage completion) zero_usage\<rparr>))"
      for query
      using handleWebSearchFlow_request[OF i, of rt query] by simp
    show "sublist instruction
           (search_prompt query (flow_context (performWebSearch rt query)) instruction)"
      for query
      by (rule search_prompt_holds)
    show "\<exists>resp after. chat rt calls supabase req = (Ok resp, after) \<and>
            (if body_webSearch req
             then \<exists>flow. handleWebSearchFlow rt (field_text (body_message req)) (Some depth) =
                           Some flow \<and>
                         res_response resp = fr_response flow
             else res_response resp =
                    generateResponse rt
                      (formattedHistory (langchain_inputs
                         (snd (snd (chat_context rt calls supabase req)))))
                      (Some depth))"
      if "\<not> absent (body_message req) \<and> request_depth req = depth" for req
      using that c by blast
  qed
qed (rule depth_text_labels)+

text \<open>At depth \<open>Large\<close> with the endpoint that probes for a ceiling of 2048: the
  instruction is the entry of the table, and both flows are answered \<open>yes\<close>.\<close>

theorem C5_depth_selects_instruction_witness:
  "map_of depthInstructions ''Large'' = Some (Str (the (depth_text ''Large''))) \<and>
   (\<exists>resp after.
      chat (ceiling_probe 2048) demo_calls None (depth_request ''Large'' False) = (Ok resp, after) \<and>
      res_response resp = ''yes'') \<and>
   (\<exists>resp after flow.
      chat (ceiling_probe 2048) demo_calls None (depth_request ''Large'' True) = (Ok resp, after) \<and>
      handleWebSearchFlow (ceiling_probe 2048) ''hi'' (Some ''Large'') = Some flow \<and>
      res_response resp = fr_response flow \<and> fr_response flow = ''yes'')"
proof -
  have m: "\<not> absent (body_message (depth_request ''Large'' ws)) \<and>
      request_depth (depth_request ''Large'' ws) = ''Large''" for ws
    by (simp add: depth_request_def absent_def request_depth_def field_text_def)
  from C5_depth_selects_instruction[of "''Large''" "ceiling_probe 2048" demo_calls None]
  obtain instruction where
    i: "depth_text ''Large'' = Some instruction"
    and l: "''Large'' \<in> {''Concise'', ''Short'', ''Medium'', ''Large''} \<Longrightarrow>
         map_of depthInstructions ''Large'' = Some (Str instruction)"
    and g: "\<And>prompt. generateResponse (ceiling_probe 2048) prompt (Some ''Large'') =
           (case chat_completions_stream (ceiling_probe 2048)
                   \<lparr>req_model = HF_MODEL (ceiling_probe 2048),
                    req_messages =
                      \<lparr>msg_role = ''system'', msg_content = system_prompt instruction\<rparr> #
                      prompt,
                    req_max_tokens = 2048, req_temperature = 7 / 10, req_stream = True\<rparr> of
              Inl error \<Rightarrow> model_error (error_message error)
            | Inr chunks \<Rightarrow>
                (let out = concat (map (\<lambda>c. case c of Some s \<Rightarrow> s | None \<Rightarrow> []) chunks)
                 in if out = [] then empty_reply else out))"
    and h: "\<And>query. handleWebSearchFlow (ceiling_probe 2048) query (Some ''Large'') =
           Some (case chat_completions_create (ceiling_probe 2048)
                        \<lparr>req_model = ''moonshotai/Kimi-K2-Instruct-0905:groq'',
                         req_messages =
                           [\<lparr>msg_role = ''system'', msg_content =
                               ''You are Kimi, an intelligent AI assistant capable of '' @
                               ''synthesizing web search results.''\<rparr>,
                            \<lparr>msg_role = ''user'', msg_content =
                               search_prompt query
                                 (flow_context (performWebSearch (ceiling_probe 2048) query))
                                 instruction\<rparr>],
                         req_max_tokens = 2048, req_temperature = 7 / 10,
                         req_stream = False\<rparr> of
                   Inl e \<Rightarrow> kimi_error
                 | Inr completion \<Rightarrow>
                     (case append_sources (synthesis_text completion)
                             (flow_sources (performWebSearch (ceiling_probe 2048) query)) of
                        None \<Rightarrow> kimi_error
                      | Some response \<Rightarrow>
                          \<lparr>fr_response = response,
                           fr_usage = js_or (completion_usage completion) zero_usage\<rparr>))"
    and c: "\<And>req. \<not> absent (body_message req) \<and> request_depth req = ''Large'' \<Longrightarrow>
         (\<exists>resp after. chat (ceiling_probe 2048) demo_calls None req = (Ok resp, after) \<and>
            (if body_webSearch req
             then \<exists>flow. handleWebSearchFlow (ceiling_probe 2048) (field_text (body_message req))
                           (Some ''Large'') = Some flow \<and>
                         res_response resp = fr_response flow
             else res_response resp =
                    generateResponse (ceiling_probe 2048)
                      (formattedHistory (langchain_inputs
                         (snd (snd (chat_context (ceiling_probe 2048) demo_calls None req)))))
                      (Some ''Large'')))"
    using probe_calls(1)[of 2048] by blast
  have g': "generateResponse (ceiling_probe 2048) prompt (Some ''Large'') = ''yes''" for prompt
    unfolding g by (simp add: probe_calls)
  have h': "fr_response (the (handleWebSearchFlow (ceiling_probe 2048) query (Some ''Large''))) =
      ''yes''" for query
    unfolding h
    by (simp add: probe_calls flow_sources_def append_sources_def synthesis_text_def)
  show ?thesis
  proof (intro conjI)
    from l i show "map_of depthInstructions ''Large'' = Some (Str (the (depth_text ''Large'')))"
      by simp
  next
    from c[OF m[of False]] show "\<exists>resp after.
      chat (ceiling_probe 2048) demo_calls None (depth_request ''Large'' False) = (Ok resp, after) \<and>
      res_response resp = ''yes''"
      by (auto simp: depth_request_def g')
  next
    from c[OF m[of True]] h'[of "''hi''"] show "\<exists>resp after flow.
      chat (ceiling_probe 2048) demo_calls None (depth_request ''Large'' True) = (Ok resp, after) \<and>
      handleWebSearchFlow (ceiling_probe 2048) ''hi'' (Some ''Large'') = Some flow \<and>
      res_response resp = fr_response flow \<and> fr_response flow = ''yes''"
      by (auto simp: depth_request_def field_text_def)
  qed
qed

text \<open>
  Claim C5 as stated fails: the handler is answered \<open>yes\<close> by the endpoint that probes
  for a ceiling of 2048, for \<open>Concise\<close> and for \<open>Large\<close>, in the standard flow and in the
  web-search flow; and no token ceiling that tells \<open>Concise\<close> from \<open>Large\<close> is the one
  that the requests of the handler carry, in either flow.
\<close>

theorem C5_same_ceiling_counterexample:
  "(\<exists>resp after.
      chat (ceiling_probe 2048) demo_calls None (depth_request ''Concise'' False) = (Ok resp, after) \<and>
      res_response resp = ''yes'') \<and>
   (\<exists>resp after.
      chat (ceiling_probe 2048) demo_calls None (depth_request ''Large'' False) = (Ok resp, after) \<and>
      res_response resp = ''yes'') \<and>
   (\<exists>resp after.
      chat (ceiling_probe 2048) demo_calls None (depth_request ''Concise'' True) = (Ok resp, after) \<and>
      res_response resp = ''yes'') \<and>
   (\<exists>resp after.
      chat (ceiling_probe 2048) demo_calls None (depth_request ''Large'' True) = (Ok resp, after) \<and>
      res_response resp = ''yes'') \<and>
   \<not> (\<exists>ceiling :: string \<Rightarrow> nat.
        ceiling ''Concise'' \<noteq> ceiling ''Large'' \<and>
        (\<forall>depth\<in>{''Concise'', ''Large''}. \<exists>webSearch resp after.
           chat (ceiling_probe (ceiling depth)) demo_calls None (depth_request depth webSearch) =
             (Ok resp, after) \<and>
           res_response resp = ''yes''))"
proof (intro conjI)
  show "\<not> (\<exists>ceiling :: string \<Rightarrow> nat.
        ceiling ''Concise'' \<noteq> ceiling ''Large'' \<and>
        (\<forall>depth\<in>{''Concise'', ''Large''}. \<exists>webSearch resp after.
           chat (ceiling_probe (ceiling depth)) demo_calls None (depth_request depth webSearch) =
             (Ok resp, after) \<and>
           res_response resp = ''yes''))"
  proof
    assume "\<exists>ceiling :: string \<Rightarrow> nat.
        ceiling ''Concise'' \<noteq> ceiling ''Large'' \<and>
        (\<forall>depth\<in>{''Concise'', ''Large''}. \<exists>webSearch resp after.
           chat (ceiling_probe (ceiling depth)) demo_calls None (depth_request depth webSearch) =
             (Ok resp, after) \<and>
           res_response resp = ''yes'')"
    then obtain ceiling :: "string \<Rightarrow> nat" where d: "ceiling ''Concise'' \<noteq> ceiling ''Large''"
      and a: "\<And>depth. depth \<in> {''Concise'', ''Large''} \<Longrightarrow> \<exists>webSearch resp after.
           chat (ceiling_probe (ceiling depth)) demo_calls None (depth_request depth webSearch) =
             (Ok resp, after) \<and>
           res_response resp = ''yes''"
      by blast
    have "ceiling depth = 2048" if "depth \<in> {''Concise'', ''Large''}" for depth
    proof -
      from a[OF that] obtain webSearch resp after where
        "chat (ceiling_probe (ceiling depth)) demo_calls None (depth_request depth webSearch) =
           (Ok resp, after)" "res_response resp = ''yes''"
        by blast
      with probe_chat[of "ceiling depth" depth webSearch]
      have "(if ceiling depth = 2048 then ''yes'' else ''no'') = ''yes''" by auto
      then show ?thesis by (simp split: if_splits)
    qed
    then have "ceiling ''Concise'' = 2048" and "ceiling ''Large'' = 2048" by simp_all
    with d show False by simp
  qed
qed (use probe_chat[of 2048] in simp)+

lemma echo_generates:
  "generateResponse echo_runtime prompt (Some ''constructor'') =
     system_prompt ''function Object() { [native code] }''"
proof -
  have "system_prompt ''function Object() { [native code] }'' \<noteq> []"
    unfolding system_prompt_def by simp
  then show ?thesis
    unfolding generateResponse_def
    by (simp add: depth_text_constructor echo_runtime_def demo_runtime_def sanyai_request_def Let_def)
qed

lemma echo_chat:
  "\<exists>resp after. chat echo_runtime demo_calls None constructor_request = (Ok resp, after) \<and>
     res_response resp = system_prompt ''function Object() { [native code] }''"
proof -
  have m: "\<not> absent (body_message constructor_request)"
    and w: "\<not> body_webSearch constructor_request"
    and d: "request_depth constructor_request = ''constructor''"
    by (simp_all add: constructor_request_def absent_def request_depth_def field_text_def)
  from chat_answer[OF m, of echo_runtime demo_calls None]
  obtain cid after response usage where
    r: "chat_reply echo_runtime (body_webSearch constructor_request)
          (field_text (body_message constructor_request)) (request_depth constructor_request)
          (snd (snd (chat_context echo_runtime demo_calls None constructor_request))) =
        Some (response, usage)"
    and c: "chat echo_runtime demo_calls None constructor_request =
       (Ok \<lparr>res_chat_id = cid, res_response = response, res_usage = usage\<rparr>, after)"
    by blast
  from r w have "response = generateResponse echo_runtime
      (formattedHistory (langchain_inputs
         (snd (snd (chat_context echo_runtime demo_calls None constructor_request)))))
      (Some (request_depth constructor_request))"
    by (simp add: chat_standard_reply)
  then have "response = system_prompt ''function Object() { [native code] }''"
    unfolding d by (simp only: echo_generates)
  with c show ?thesis by simp
qed

text \<open>
  Claim C9, evaluated on the code at the depth \<open>constructor\<close>. The lookup finds the
  property every object inherits, which is truthy, so the instruction is the text of the
  function \<open>Object\<close> and not the instruction of \<open>Short\<close>; the requests of both flows
  differ from the ones depth \<open>Short\<close> gives, and an endpoint that echoes its system prompt
  shows the text in the response of \<open>POST /chat\<close>.
\<close>

theorem C9_inherited_property_as_depth:
  "depth_text ''constructor'' = Some ''function Object() { [native code] }'' \<and>
   (\<exists>resp after. chat echo_runtime demo_calls None constructor_request = (Ok resp, after) \<and>
      res_response resp = system_prompt ''function Object() { [native code] }'') \<and>
   depth_text ''constructor'' \<noteq> depth_text ''Short'' \<and>
   sanyai_request rt ''function Object() { [native code] }'' prompt \<noteq>
     sanyai_request rt
       (''IMPORTANT CONSTRAINT: Keep your response short and to the point, '' @
        ''approximately 200-300 words.'') prompt \<and>
   search_prompt query context ''function Object() { [native code] }'' \<noteq>
     search_prompt query context
       (''IMPORTANT CONSTRAINT: Keep your response short and to the point, '' @
        ''approximately 200-300 words.'')"
proof (intro conjI)
  show c: "depth_text ''constructor'' = Some ''function Object() { [native code] }''"
    by (rule depth_text_constructor)
  show "\<exists>resp after. chat echo_runtime demo_calls None constructor_request = (Ok resp, after) \<and>
      res_response resp = system_prompt ''function Object() { [native code] }''"
    by (rule echo_chat)
  show "depth_text ''constructor'' \<noteq> depth_text ''Short''"
    unfolding c depth_text_labels by simp
  show "sanyai_request rt ''function Object() { [native code] }'' prompt \<noteq>
     sanyai_request rt
       (''IMPORTANT CONSTRAINT: Keep your response short and to the point, '' @
        ''approximately 200-300 words.'') prompt"
    unfolding sanyai_request_def system_prompt_def by simp
  show "search_prompt query context ''function Object() { [native code] }'' \<noteq>
     search_prompt query context
       (''IMPORTANT CONSTRAINT: Keep your response short and to the point, '' @
        ''approximately 200-300 words.'')"
    unfolding search_prompt_def by simp
qed

text \<open>Every depth that is neither a label nor the name of an inherited property falls
  back to the instruction of \<open>Short\<close>.\<close>

lemma depth_text_fallback:
  assumes "d \<notin> {''Concise'', ''Short'', ''Medium'', ''Large''}"
    and "d \<notin> fst ` set object_prototype"
  shows "depth_text d = depth_text ''Short''"
proof -
  have "map_of depthInstructions d = None"
    using assms(1) unfolding depthInstructions_def by simp
  moreover have "inherited d = Undefined"
  proof -
    have "map_of object_prototype d = None"
      using assms(2) by (simp only: map_of_eq_None_iff not_False_eq_True)
    then show ?thesis by (simp add: inherited_def)
  qed
  moreover have "\<exists>s. map_of depthInstructions ''Short'' = Some (Str s) \<and> s \<noteq> []"
    unfolding depthInstructions_def by simp
  ultimately show ?thesis
    unfolding depth_text_def depth_instruction_def by (auto simp: js_or_def)
qed

end
